theory Spec2Isabelle
  imports Complex_Main "HOL-Library.Word" "HOL-Library.Log_Nat"
begin

section \<open>Video upload handler of the file-storage server\<close>

text \<open>
  A shallow embedding of \<^verbatim>\<open>handler_upload_video.go\<close> and of \<^verbatim>\<open>getExtension\<close>
  (thumbnail handler file). Library calls and external collaborators (uuid, auth, the
  database, the multipart parser, the file system, ffmpeg, ffprobe, crypto/rand, S3) are
  not part of the sources: each call is represented by its outcome, taken from a record
  of outcomes for one request, and by its effect on an explicit state. Logging
  (\<^verbatim>\<open>fmt.Println\<close> and the error detail handed to \<^verbatim>\<open>respondWithError\<close>) is left out.
\<close>

subsection \<open>float64 arithmetic\<close>

text \<open>
  \<^verbatim>\<open>getVideoAspectRatio\<close> computes in Go's \<^verbatim>\<open>float64\<close> (IEEE 754 binary64, round to
  nearest, ties to even). A finite float64 is represented by the rational number it
  denotes; every operation rounds the exact result to the nearest representable number:
  53 significant bits, smallest quantum \<open>2^-1074\<close>, overflow to infinity from \<open>2^1024\<close>.
  The sign of zero is not represented: it changes no subtraction or comparison of the
  code modelled here.
\<close>

datatype float64 = Fin rat | PosInf | NegInf | NaN

definition ilog2 :: "rat \<Rightarrow> int" where
  \<comment> \<open>\<open>\<lfloor>log\<^sub>2 x\<rfloor>\<close> for \<open>x > 0\<close>\<close>
  "ilog2 x = (if 1 \<le> x then bitlen \<lfloor>x\<rfloor> - 1 else - bitlen (\<lceil>1 / x\<rceil> - 1))"

definition quantum :: "rat \<Rightarrow> int" where
  \<comment> \<open>exponent of the spacing of float64 numbers around \<open>x \<noteq> 0\<close>\<close>
  "quantum x = max (ilog2 \<bar>x\<bar> - 52) (- 1074)"

definition round_even :: "rat \<Rightarrow> int" where
  \<comment> \<open>nearest integer, a tie going to the even neighbour\<close>
  "round_even m =
     (let f = \<lfloor>m\<rfloor>; r = m - of_int f
      in if r < 1 / 2 then f
         else if 1 / 2 < r then f + 1
         else if even f then f else f + 1)"

definition round_quantum :: "rat \<Rightarrow> rat" where
  "round_quantum x =
     (if x = 0 then 0
      else of_int (round_even (x / 2 powi quantum x)) * 2 powi quantum x)"

definition float64_round :: "rat \<Rightarrow> float64" where
  "float64_round x =
     (let r = round_quantum x
      in if 2 ^ 1024 \<le> r then PosInf
         else if r \<le> - (2 ^ 1024) then NegInf
         else Fin r)"

definition float64_of_int :: "int \<Rightarrow> float64" where
  \<comment> \<open>the conversion \<^verbatim>\<open>float64(n)\<close>\<close>
  "float64_of_int n = float64_round (of_int n)"

fun float64_div :: "float64 \<Rightarrow> float64 \<Rightarrow> float64" where
  "float64_div (Fin a) (Fin b) =
     (if b = 0 then (if a = 0 then NaN else if 0 < a then PosInf else NegInf)
      else float64_round (a / b))"
| "float64_div (Fin a) PosInf = Fin 0"
| "float64_div (Fin a) NegInf = Fin 0"
| "float64_div PosInf (Fin b) = (if 0 \<le> b then PosInf else NegInf)"
| "float64_div NegInf (Fin b) = (if 0 \<le> b then NegInf else PosInf)"
| "float64_div _ _ = NaN"

fun float64_sub :: "float64 \<Rightarrow> float64 \<Rightarrow> float64" where
  "float64_sub (Fin a) (Fin b) = float64_round (a - b)"
| "float64_sub (Fin a) PosInf = NegInf"
| "float64_sub (Fin a) NegInf = PosInf"
| "float64_sub PosInf (Fin b) = PosInf"
| "float64_sub PosInf NegInf = PosInf"
| "float64_sub NegInf (Fin b) = NegInf"
| "float64_sub NegInf PosInf = NegInf"
| "float64_sub _ _ = NaN"

fun float64_abs :: "float64 \<Rightarrow> float64" where
  \<comment> \<open>\<^verbatim>\<open>math.Abs\<close>\<close>
  "float64_abs (Fin a) = Fin \<bar>a\<bar>"
| "float64_abs PosInf = PosInf"
| "float64_abs NegInf = PosInf"
| "float64_abs NaN = NaN"

fun float64_less :: "float64 \<Rightarrow> float64 \<Rightarrow> bool" where
  \<comment> \<open>\<^verbatim>\<open><\<close>: false whenever an operand is NaN\<close>
  "float64_less (Fin a) (Fin b) = (a < b)"
| "float64_less (Fin a) PosInf = True"
| "float64_less NegInf (Fin b) = True"
| "float64_less NegInf PosInf = True"
| "float64_less _ _ = False"

definition float64_const :: "rat \<Rightarrow> float64" where
  \<comment> \<open>an untyped constant expression is evaluated exactly and rounded once\<close>
  "float64_const c = float64_round c"

subsection \<open>Aspect-ratio classification\<close>

definition aspect_label :: "int \<Rightarrow> int \<Rightarrow> string" where
  \<comment> \<open>lines 186 to 194 of \<^verbatim>\<open>getVideoAspectRatio\<close>\<close>
  "aspect_label width height =
     (let ratio = float64_div (float64_of_int width) (float64_of_int height)
      in if float64_less (float64_abs (float64_sub ratio (float64_const (16 / 9))))
              (float64_const (1 / 1000))
         then ''landscape''
         else if float64_less (float64_abs (float64_sub ratio (float64_const (9 / 16))))
              (float64_const (1 / 1000))
         then ''portrait''
         else ''other'')"

subsection \<open>Data model\<close>

type_synonym uuid = string
type_synonym error = string

text \<open>
  Modelled from the spec: the Video Asset Record (\<^verbatim>\<open>database.Video\<close>, whose declaration
  is in a package outside the sources): an identifier, the owning user, an optional
  playback-location reference and an optional thumbnail-location reference.
\<close>

record Video =
  ID :: uuid
  UserID :: uuid
  VideoURL :: "string option"
  ThumbnailURL :: "string option"

text \<open>The part of \<^verbatim>\<open>apiConfig\<close> the handler reads, the database handle apart.\<close>

record apiConfig =
  s3Bucket :: string

text \<open>One entry of \<^verbatim>\<open>ffprobeStream.Streams\<close>; Go's \<^verbatim>\<open>int\<close> has 64 bits.\<close>

record stream =
  Width :: int
  Height :: int

text \<open>A Go call returns a value, returns an error, or panics.\<close>

datatype 'a result = Ok 'a | Err error | Panic string

text \<open>
  What the handler leaves on the wire: \<^verbatim>\<open>respondWithError(w, code, msg, err)\<close>,
  \<^verbatim>\<open>respondWithJSON(w, code, payload)\<close>, or nothing when it panics.
\<close>

datatype outcome = RespondWithError nat string | RespondWithJSON nat Video | Panicked string

abbreviation StatusOK :: nat where "StatusOK \<equiv> 200"
abbreviation StatusBadRequest :: nat where "StatusBadRequest \<equiv> 400"
abbreviation StatusUnauthorized :: nat where "StatusUnauthorized \<equiv> 401"
abbreviation StatusForbidden :: nat where "StatusForbidden \<equiv> 403"
abbreviation StatusNotFound :: nat where "StatusNotFound \<equiv> 404"
abbreviation StatusRequestEntityTooLarge :: nat where "StatusRequestEntityTooLarge \<equiv> 413"
abbreviation StatusUnsupportedMediaType :: nat where "StatusUnsupportedMediaType \<equiv> 415"
abbreviation StatusInternalServerError :: nat where "StatusInternalServerError \<equiv> 500"

text \<open>Calls that leave the process, in the order the handler makes them.\<close>

datatype event =
    FormFile_spool string
  | CreateTemp_call string
  | Copy_call string
  | ffmpeg_call string string
  | Open_call string
  | ffprobe_call string
  | PutObject_call string string string string
  | UpdateVideo_call Video
  | PresignGetObject_call string string nat
  | Remove_call string

text \<open>
  The state the handler acts on: the video table, the temporary files on disk, the
  objects written to the store (bucket, key, content type, file the body was read from),
  and the calls made so far.
\<close>

record state =
  db :: "uuid \<rightharpoonup> Video"
  disk :: "string list"
  objects :: "(string \<times> string \<times> string \<times> string) list"
  trace :: "event list"

text \<open>
  The outcomes of the library and collaborator calls of one request. \<open>body_read\<close> is
  the number of body bytes the multipart parser reads to extract the form,
  \<open>FormFile\<close> what \<^verbatim>\<open>r.FormFile("video")\<close> returns when no limit cuts the body short,
  \<open>part_size\<close> the number of bytes of the file part (the form is taken to hold no
  file part but the one named \<^verbatim>\<open>video\<close>), \<open>multipart_temp\<close> the name of the file the parser
  creates when it moves the part to disk, \<open>PutObject\<close> what the object store answers
  when the name of the bucket is one a bucket can have, and \<open>entropy\<close> the bytes the
  system's random source delivers, by position.
\<close>

record env =
  uuid_Parse :: "error + uuid"
  GetBearerToken :: "error + string"
  ValidateJWT :: "error + uuid"
  body_read :: nat
  FormFile :: "error option"
  part_size :: nat
  multipart_temp :: string
  ParseMediaType :: "error + string"
  CreateTemp :: "error + string"
  Copy :: "error option"
  Seek :: "error option"
  ffmpeg_Run :: "error option"
  Open :: "error option"
  ffprobe_Run :: "error option"
  Unmarshal :: "error + stream list"
  entropy :: "nat \<Rightarrow> 8 word"
  PutObject :: "error option"
  UpdateVideo :: "error option"
  PresignGetObject :: "string \<Rightarrow> string \<Rightarrow> nat \<Rightarrow> error + string"

subsection \<open>Helpers\<close>

definition getExtension :: "string \<Rightarrow> string" where
  "getExtension contentType =
     (if contentType = ''image/jpeg'' then ''jpg''
      else if contentType = ''image/png'' then ''png''
      else if contentType = ''image/gif'' then ''gif''
      else if contentType = ''image/webp'' then ''webp''
      else ''bin'')"

text \<open>
  \<^verbatim>\<open>base64.RawURLEncoding.EncodeToString\<close>: the URL-safe alphabet of RFC 4648, three
  bytes to four characters, a trailing group of one or two bytes to two or three
  characters, no padding.
\<close>

definition encodeURL :: string where
  "encodeURL = ''ABCDEFGHIJKLMNOPQRSTUVWXYZabcdefghijklmnopqrstuvwxyz0123456789-_''"

fun EncodeToString :: "8 word list \<Rightarrow> string" where
  "EncodeToString (a # b # c # src) =
     (let val = unat a * 65536 + unat b * 256 + unat c
      in [encodeURL ! (val div 262144 mod 64), encodeURL ! (val div 4096 mod 64),
          encodeURL ! (val div 64 mod 64), encodeURL ! (val mod 64)] @ EncodeToString src)"
| "EncodeToString [a, b] =
     (let val = unat a * 65536 + unat b * 256
      in [encodeURL ! (val div 262144 mod 64), encodeURL ! (val div 4096 mod 64),
          encodeURL ! (val div 64 mod 64)])"
| "EncodeToString [a] =
     (let val = unat a * 65536
      in [encodeURL ! (val div 262144 mod 64), encodeURL ! (val div 4096 mod 64)])"
| "EncodeToString [] = []"

text \<open>\<^verbatim>\<open>strings.Split(s, sep)\<close> for a separator of one character.\<close>

fun Split :: "string \<Rightarrow> char \<Rightarrow> string list" where
  "Split [] sep = [[]]"
| "Split (c # cs) sep =
     (if c = sep then [] # Split cs sep
      else (case Split cs sep of p # ps \<Rightarrow> (c # p) # ps | [] \<Rightarrow> [[c]]))"

definition rand_Read :: "env \<Rightarrow> 8 word list \<Rightarrow> 8 word list" where
  \<comment> \<open>\<^verbatim>\<open>rand.Read(b)\<close> fills the whole of \<open>b\<close>\<close>
  "rand_Read env b = map (entropy env) [0..<length b]"

definition Minute :: nat where
  \<comment> \<open>\<^verbatim>\<open>time.Minute\<close>, a \<^verbatim>\<open>time.Duration\<close> in nanoseconds\<close>
  "Minute = 60 * 1000000000"

definition called :: "event \<Rightarrow> state \<Rightarrow> state" where
  "called e s = s\<lparr>trace := trace s @ [e]\<rparr>"

definition Remove :: "string \<Rightarrow> state \<Rightarrow> state" where
  \<comment> \<open>\<^verbatim>\<open>os.Remove(name)\<close>\<close>
  "Remove name s = called (Remove_call name) (s\<lparr>disk := removeAll name (disk s)\<rparr>)"

text \<open>
  \<^verbatim>\<open>cfg.s3Client.PutObject\<close>. The object store refuses a request for a bucket whose name
  no bucket can have: the name of a bucket holds lowercase letters, digits, periods and
  hyphens, and in buckets created under the earlier rules also uppercase letters and
  underscores; no other character, and so no comma.
\<close>

definition bucket_chars :: string where
  "bucket_chars = ''abcdefghijklmnopqrstuvwxyzABCDEFGHIJKLMNOPQRSTUVWXYZ0123456789.-_''"

definition s3_PutObject :: "env \<Rightarrow> string \<Rightarrow> error option" where
  "s3_PutObject env bucket =
     (if set bucket \<subseteq> set bucket_chars then PutObject env else Some ''InvalidBucketName'')"

definition GetVideo :: "state \<Rightarrow> uuid \<Rightarrow> error + Video" where
  "GetVideo s videoID =
     (case db s videoID of None \<Rightarrow> Inl ''not found'' | Some video \<Rightarrow> Inr video)"

subsection \<open>The functions of \<^verbatim>\<open>handler_upload_video.go\<close>\<close>

definition generatePresignedURL ::
  "env \<Rightarrow> string \<Rightarrow> string \<Rightarrow> nat \<Rightarrow> state \<Rightarrow> (error + string) \<times> state" where
  "generatePresignedURL env bucket key expireTime s =
     (PresignGetObject env bucket key expireTime,
      called (PresignGetObject_call bucket key expireTime) s)"

definition processVideoForFastStart ::
  "env \<Rightarrow> string \<Rightarrow> state \<Rightarrow> (error + string) \<times> state" where
  \<comment> \<open>a run of ffmpeg that succeeds leaves its output file on disk; a failed run is taken
      to leave none\<close>
  "processVideoForFastStart env filepath s =
     (let output_path = filepath @ ''.processing'';
          s1 = called (ffmpeg_call filepath output_path) s
      in case ffmpeg_Run env of
           Some err \<Rightarrow> (Inl err, s1)
         | None \<Rightarrow> (Inr output_path, s1\<lparr>disk := output_path # disk s1\<rparr>))"

definition getVideoAspectRatio :: "env \<Rightarrow> string \<Rightarrow> state \<Rightarrow> string result \<times> state" where
  \<comment> \<open>\<^verbatim>\<open>cmdResult.Streams[0]\<close> panics on an empty slice\<close>
  "getVideoAspectRatio env filePath s =
     (let s1 = called (ffprobe_call filePath) s
      in case ffprobe_Run env of
           Some err \<Rightarrow> (Err err, s1)
         | None \<Rightarrow>
            (case Unmarshal env of
               Inl err \<Rightarrow> (Err err, s1)
             | Inr Streams \<Rightarrow>
                (case Streams of
                   [] \<Rightarrow> (Panic ''index out of range [0] with length 0'', s1)
                 | st # _ \<Rightarrow> (Ok (aspect_label (Width st) (Height st)), s1))))"

definition dbVideoToSignedVideo ::
  "env \<Rightarrow> Video \<Rightarrow> state \<Rightarrow> Video result \<times> state" where
  \<comment> \<open>\<^verbatim>\<open>params[1]\<close> panics when the stored reference holds no comma\<close>
  "dbVideoToSignedVideo env video s =
     (case VideoURL video of
        None \<Rightarrow> (Ok video, s)
      | Some location \<Rightarrow>
         (let params = Split location (CHR '','')
          in if length params < 2 then (Panic ''index out of range [1] with length 1'', s)
             else
               (let bucket = params ! 0; key = params ! 1
                in case generatePresignedURL env bucket key (10 * Minute) s of
                     (Inl err, s1) \<Rightarrow> (Err err, s1)
                   | (Inr url, s1) \<Rightarrow> (Ok (video\<lparr>VideoURL := Some url\<rparr>), s1))))"

text \<open>Lines 108 to 145: both temporary files exist and both removals are deferred.\<close>

definition publish ::
  "apiConfig \<Rightarrow> env \<Rightarrow> Video \<Rightarrow> string \<Rightarrow> string \<Rightarrow> string \<Rightarrow> state \<Rightarrow> outcome \<times> state" where
  "publish cfg env video mediaType tempFile fastStartTempFilepath s =
     (case getVideoAspectRatio env tempFile s of
        (Panic p, s1) \<Rightarrow> (Panicked p, s1)
      | (Err err, s1) \<Rightarrow>
          (RespondWithError StatusInternalServerError ''Couldn't get video aspect ratio'', s1)
      | (Ok aspectRatio, s1) \<Rightarrow>
         (let randomBytes = rand_Read env (replicate 32 0);
              randomString = EncodeToString randomBytes;
              extension = getExtension mediaType;
              fileKey = aspectRatio @ ''/'' @ randomString @ ''.'' @ extension;
              s2 = called (PutObject_call (s3Bucket cfg) fileKey mediaType fastStartTempFilepath) s1
          in case s3_PutObject env (s3Bucket cfg) of
               Some err \<Rightarrow> (RespondWithError StatusInternalServerError ''Couldn't upload file'', s2)
             | None \<Rightarrow>
                (let s3 = s2\<lparr>objects :=
                            (s3Bucket cfg, fileKey, mediaType, fastStartTempFilepath) # objects s2\<rparr>;
                     videoURL = s3Bucket cfg @ '','' @ fileKey;
                     video1 = video\<lparr>VideoURL := Some videoURL\<rparr>;
                     s4 = called (UpdateVideo_call video1) s3
                 in case UpdateVideo env of
                      Some err \<Rightarrow>
                        (RespondWithError StatusInternalServerError ''Couldn't update video'', s4)
                    | None \<Rightarrow>
                       (let s5 = s4\<lparr>db := (db s4)(ID video1 \<mapsto> video1)\<rparr>
                        in case dbVideoToSignedVideo env video1 s5 of
                             (Panic p, s6) \<Rightarrow> (Panicked p, s6)
                           | (Err err, s6) \<Rightarrow>
                               (RespondWithError StatusInternalServerError ''Couldn't sign video'', s6)
                           | (Ok signedVideo, s6) \<Rightarrow> (RespondWithJSON StatusOK signedVideo, s6)))))"

text \<open>
  Lines 84 to 106: the staged upload exists and its removal is deferred. The removal of
  the remuxed file is deferred at line 105, once \<^verbatim>\<open>os.Open\<close> has succeeded; a
  deferred call runs on return and on panic alike.
\<close>

definition stage ::
  "apiConfig \<Rightarrow> env \<Rightarrow> Video \<Rightarrow> string \<Rightarrow> string \<Rightarrow> state \<Rightarrow> outcome \<times> state" where
  "stage cfg env video mediaType tempFile s =
     (let s1 = called (Copy_call tempFile) s
      in case Copy env of
           Some err \<Rightarrow> (RespondWithError StatusInternalServerError ''Couldn't copy file'', s1)
         | None \<Rightarrow>
            (case Seek env of
               Some err \<Rightarrow> (RespondWithError StatusInternalServerError ''Couldn't seek file'', s1)
             | None \<Rightarrow>
                (case processVideoForFastStart env tempFile s1 of
                   (Inl err, s2) \<Rightarrow>
                     (RespondWithError StatusInternalServerError ''Couldn't process video'', s2)
                 | (Inr fastStartTempFilepath, s2) \<Rightarrow>
                    (let s3 = called (Open_call fastStartTempFilepath) s2
                     in case Open env of
                          Some err \<Rightarrow>
                            (RespondWithError StatusInternalServerError
                               ''Couldn't open fast start temp file'', s3)
                        | None \<Rightarrow>
                           (case publish cfg env video mediaType tempFile fastStartTempFilepath s3 of
                              (out, s4) \<Rightarrow> (out, Remove fastStartTempFilepath s4))))))"

text \<open>
  \<^verbatim>\<open>r.FormFile("video")\<close> behind \<^verbatim>\<open>http.MaxBytesReader(w, r.Body, 1 << 30)\<close>: a read past
  the limit fails, and with it the parse of the form. The call parses the form with
  32 MiB of memory for file parts (\<^verbatim>\<open>ParseMultipartForm(32 << 20)\<close>): a larger part is
  written to a temporary file \<^verbatim>\<open>multipart-*\<close>, which a failed parse removes and a
  successful one leaves to the server to remove after the handler has returned.
\<close>

definition FormFile_limited :: "env \<Rightarrow> state \<Rightarrow> error option \<times> state" where
  "FormFile_limited env s =
     (if 2 ^ 30 < body_read env then (Some ''http: request body too large'', s)
      else case FormFile env of
             Some err \<Rightarrow> (Some err, s)
           | None \<Rightarrow>
              (None,
               if 32 * 2 ^ 20 < part_size env
               then called (FormFile_spool (multipart_temp env))
                      (s\<lparr>disk := multipart_temp env # disk s\<rparr>)
               else s))"

definition handlerUploadVideo :: "apiConfig \<Rightarrow> env \<Rightarrow> state \<Rightarrow> outcome \<times> state" where
  "handlerUploadVideo cfg env s =
     (case uuid_Parse env of
        Inl err \<Rightarrow> (RespondWithError StatusBadRequest ''Invalid ID'', s)
      | Inr videoID \<Rightarrow>
     (case GetBearerToken env of
        Inl err \<Rightarrow> (RespondWithError StatusUnauthorized ''Couldn't find JWT'', s)
      | Inr token \<Rightarrow>
     (case ValidateJWT env of
        Inl err \<Rightarrow> (RespondWithError StatusUnauthorized ''Couldn't validate JWT'', s)
      | Inr userID \<Rightarrow>
     (case GetVideo s videoID of
        Inl err \<Rightarrow> (RespondWithError StatusNotFound ''Couldn't get video'', s)
      | Inr video \<Rightarrow>
         if UserID video \<noteq> userID
         then (RespondWithError StatusUnauthorized ''User not authorized to edit video'', s)
         else
     (case FormFile_limited env s of
        (Some err, s0) \<Rightarrow>
          (RespondWithError StatusBadRequest ''Couldn't parse multipart form'', s0)
      | (None, s0) \<Rightarrow>
     (case ParseMediaType env of
        Inl err \<Rightarrow> (RespondWithError StatusBadRequest ''Couldn't parse media type'', s0)
      | Inr mediaType \<Rightarrow>
         if mediaType \<noteq> ''video/mp4''
         then (RespondWithError StatusBadRequest ''Unsupported file type'', s0)
         else
          (let s1 = called (CreateTemp_call ''tubely-upload.mp4'') s0
           in case CreateTemp env of
                Inl err \<Rightarrow>
                  (RespondWithError StatusInternalServerError ''Couldn't create temp file'', s1)
              | Inr tempFile \<Rightarrow>
                 (case stage cfg env video mediaType tempFile (s1\<lparr>disk := tempFile # disk s1\<rparr>) of
                    (out, s2) \<Rightarrow> (out, Remove tempFile s2)))))))))"

subsection \<open>Sample requests\<close>

definition status_of :: "outcome \<Rightarrow> nat option" where
  "status_of out =
     (case out of RespondWithError code msg \<Rightarrow> Some code
      | RespondWithJSON code payload \<Rightarrow> Some code
      | Panicked p \<Rightarrow> None)"

definition sample_video :: Video where
  "sample_video = \<lparr>ID = ''v1'', UserID = ''u1'', VideoURL = None, ThumbnailURL = None\<rparr>"

definition sample_state :: state where
  "sample_state = \<lparr>db = [''v1'' \<mapsto> sample_video], disk = [], objects = [], trace = []\<rparr>"

definition sample_cfg :: apiConfig where
  "sample_cfg = \<lparr>s3Bucket = ''tubely''\<rparr>"

text \<open>A request of the owner for which every step succeeds.\<close>

definition sample_env :: env where
  "sample_env =
     \<lparr>uuid_Parse = Inr ''v1'', GetBearerToken = Inr ''token'', ValidateJWT = Inr ''u1'',
      body_read = 4096, FormFile = None, part_size = 3000,
      multipart_temp = ''/tmp/multipart-456'', ParseMediaType = Inr ''video/mp4'',
      CreateTemp = Inr ''/tmp/tubely-upload.mp4123'', Copy = None, Seek = None,
      ffmpeg_Run = None, Open = None, ffprobe_Run = None,
      Unmarshal = Inr [\<lparr>Width = 1920, Height = 1080\<rparr>],
      entropy = (\<lambda>i. of_nat i), PutObject = None, UpdateVideo = None,
      PresignGetObject = (\<lambda>bucket key expireTime. Inr (''https://s3/'' @ bucket @ ''/'' @ key))\<rparr>"

section \<open>Properties\<close>

subsection \<open>Rounding to float64\<close>

lemma ilog2_lower: assumes "0 < x" shows "2 powi (ilog2 x) \<le> x"
proof (cases "1 \<le> x")
  case True
  define n where "n = \<lfloor>x\<rfloor>"
  have n1: "1 \<le> n" using True by (simp add: n_def le_floor_iff)
  then have b1: "1 \<le> bitlen n" by (simp add: bitlen_alt_def)
  have "(2::int) ^ nat (bitlen n - 1) \<le> n" using bitlen_bounds[of n] n1 by simp
  then have "(of_int ((2::int) ^ nat (bitlen n - 1)) :: rat) \<le> of_int n" by (simp only: of_int_le_iff)
  then have "(2::rat) ^ nat (bitlen n - 1) \<le> of_int n" by simp
  also have "\<dots> \<le> x" by (simp add: n_def)
  finally show ?thesis using True b1 by (simp add: ilog2_def n_def power_int_nonneg_exp)
next
  case False
  define m where "m = \<lceil>1 / x\<rceil> - 1"
  have y: "1 < 1 / x" using False assms by simp
  have m1: "1 \<le> m" using y unfolding m_def by (simp add: less_ceiling_iff)
  have "1 / x \<le> of_int m + 1" unfolding m_def by (simp add: le_of_int_ceiling)
  moreover have "m < 2 ^ nat (bitlen m)" using bitlen_bounds[of m] m1 by simp
  then have "m + 1 \<le> 2 ^ nat (bitlen m)" by simp
  then have "(of_int (m + 1) :: rat) \<le> of_int (2 ^ nat (bitlen m))" by (simp only: of_int_le_iff)
  then have "(of_int m + 1 :: rat) \<le> 2 ^ nat (bitlen m)" by simp
  ultimately have "1 / x \<le> 2 ^ nat (bitlen m)" by linarith
  then have "1 / 2 ^ nat (bitlen m) \<le> x" using assms
    by (simp add: field_simps)
  moreover have "(2::rat) powi (- bitlen m) = 1 / 2 ^ nat (bitlen m)"
    using bitlen_nonneg[of m] by (simp add: power_int_minus power_int_nonneg_exp field_simps)
  ultimately show ?thesis using False by (simp add: ilog2_def m_def)
qed

lemma ilog2_upper: assumes "0 < x" shows "x < 2 powi (ilog2 x + 1)"
proof (cases "1 \<le> x")
  case True
  define n where "n = \<lfloor>x\<rfloor>"
  have n1: "1 \<le> n" using True by (simp add: n_def le_floor_iff)
  then have b1: "1 \<le> bitlen n" by (simp add: bitlen_alt_def)
  have "n < 2 ^ nat (bitlen n)" using bitlen_bounds[of n] n1 by simp
  then have "n + 1 \<le> 2 ^ nat (bitlen n)" by simp
  then have "(of_int (n + 1) :: rat) \<le> of_int (2 ^ nat (bitlen n))" by (simp only: of_int_le_iff)
  then have "(of_int n + 1 :: rat) \<le> 2 ^ nat (bitlen n)" by simp
  moreover have "x < of_int n + 1" unfolding n_def by linarith
  ultimately have "x < 2 ^ nat (bitlen n)" by linarith
  then show ?thesis using True b1 by (simp add: ilog2_def n_def power_int_nonneg_exp)
next
  case False
  define m where "m = \<lceil>1 / x\<rceil> - 1"
  have y: "1 < 1 / x" using False assms by simp
  have m1: "1 \<le> m" using y unfolding m_def by (simp add: less_ceiling_iff)
  then have b1: "1 \<le> bitlen m" by (simp add: bitlen_alt_def)
  have "of_int m < 1 / x" unfolding m_def by linarith
  moreover have "(2::int) ^ nat (bitlen m - 1) \<le> m" using bitlen_bounds[of m] m1 by simp
  then have "(of_int ((2::int) ^ nat (bitlen m - 1)) :: rat) \<le> of_int m" by (simp only: of_int_le_iff)
  then have "(2::rat) ^ nat (bitlen m - 1) \<le> of_int m" by simp
  ultimately have "2 ^ nat (bitlen m - 1) < 1 / x" by linarith
  then have "x < 1 / 2 ^ nat (bitlen m - 1)" using assms by (simp add: field_simps)
  moreover have "(2::rat) powi (- bitlen m + 1) = 1 / 2 ^ nat (bitlen m - 1)"
  proof -
    have "- bitlen m + 1 = - (bitlen m - 1)" by simp
    then show ?thesis using b1 by (simp only: power_int_minus power_int_nonneg_exp) (simp add: power_int_nonneg_exp field_simps)
  qed
  ultimately show ?thesis using False by (simp add: ilog2_def m_def)
qed


lemma powi2_mono: "a \<le> b \<Longrightarrow> (2::rat) powi a \<le> 2 powi b"
  using power_int_increasing[of a b "2::rat"] by simp

lemma powi2_strict_mono: "a < b \<Longrightarrow> (2::rat) powi a < 2 powi b"
  using power_int_strict_increasing[of a b "2::rat"] by simp

lemma powi2_pos: "0 < (2::rat) powi a"
  by (simp add: power_int_def)

lemma ilog2_eqI:
  assumes "0 < x" "2 powi e \<le> x" "x < 2 powi (e + 1)"
  shows "ilog2 x = e"
proof (rule ccontr)
  assume ne: "ilog2 x \<noteq> e"
  have lo: "2 powi (ilog2 x) \<le> x" and up: "x < 2 powi (ilog2 x + 1)"
    using assms(1) by (rule ilog2_lower, rule ilog2_upper)
  show False
  proof (cases "ilog2 x < e")
    case True
    then have "(2::rat) powi (ilog2 x + 1) \<le> 2 powi e" by (intro powi2_mono) simp
    with up assms(2) show False by linarith
  next
    case False
    with ne have "(2::rat) powi (e + 1) \<le> 2 powi (ilog2 x)" by (intro powi2_mono) simp
    with lo assms(3) show False by linarith
  qed
qed

lemma round_even_err: "\<bar>of_int (round_even m) - m\<bar> \<le> 1 / 2"
proof -
  have "of_int \<lfloor>m\<rfloor> \<le> m" "m < of_int \<lfloor>m\<rfloor> + 1" by linarith+
  then show ?thesis
  unfolding round_even_def Let_def
  by (auto simp: abs_le_iff)
qed

lemma round_even_of_int: "round_even (of_int n) = n"
  by (simp add: round_even_def)

lemma round_quantum_err_q:
  assumes "x \<noteq> 0"
  shows "\<bar>round_quantum x - x\<bar> \<le> 2 powi (quantum x) / 2"
proof -
  define p where "p = (2::rat) powi (quantum x)"
  have p: "0 < p" by (simp add: p_def powi2_pos)
  have "\<bar>of_int (round_even (x / p)) - x / p\<bar> \<le> 1 / 2" by (rule round_even_err)
  then have "\<bar>of_int (round_even (x / p)) - x / p\<bar> * p \<le> 1 / 2 * p"
    using p by (intro mult_right_mono) simp_all
  moreover have "\<bar>of_int (round_even (x / p)) - x / p\<bar> * p = \<bar>of_int (round_even (x / p)) * p - x\<bar>"
  proof -
    have "\<bar>of_int (round_even (x / p)) - x / p\<bar> * p = \<bar>(of_int (round_even (x / p)) - x / p) * p\<bar>"
      using p by (simp add: abs_mult)
    also have "(of_int (round_even (x / p)) - x / p) * p = of_int (round_even (x / p)) * p - x"
      using p by (simp add: field_simps)
    finally show ?thesis .
  qed
  ultimately have "\<bar>of_int (round_even (x / p)) * p - x\<bar> \<le> p / 2" by linarith
  then show ?thesis using assms unfolding round_quantum_def p_def by simp
qed

lemma quantum_bound:
  assumes "x \<noteq> 0"
  shows "2 powi (quantum x) \<le> \<bar>x\<bar> * 2 powi (- 52) + 2 powi (- 1074)"
proof -
  have ax: "0 < \<bar>x\<bar>" using assms by simp
  have "(2::rat) powi (ilog2 \<bar>x\<bar> - 52) = 2 powi (ilog2 \<bar>x\<bar>) * 2 powi (- 52)"
    by (simp add: power_int_add power_int_diff)
  also have "\<dots> \<le> \<bar>x\<bar> * 2 powi (- 52)"
    using ilog2_lower[OF ax] by (intro mult_right_mono) (simp_all add: powi2_pos less_imp_le)
  finally have a: "(2::rat) powi (ilog2 \<bar>x\<bar> - 52) \<le> \<bar>x\<bar> * 2 powi (- 52)" .
  have b: "0 < \<bar>x\<bar> * 2 powi (- 52)" using ax by (simp add: powi2_pos)
  have c: "0 < (2::rat) powi (- 1074)" by (rule powi2_pos)
  show ?thesis
  proof (cases "ilog2 \<bar>x\<bar> - 52 \<le> - 1074")
    case True
    then have "quantum x = - 1074" by (simp add: quantum_def)
    then show ?thesis using b by simp
  next
    case False
    then have "quantum x = ilog2 \<bar>x\<bar> - 52" by (simp add: quantum_def)
    then show ?thesis using a c by simp
  qed
qed

lemma round_quantum_err:
  "\<bar>round_quantum x - x\<bar> \<le> \<bar>x\<bar> / 2 ^ 53 + 1 / 2 ^ 1075"
proof (cases "x = 0")
  case True
  then show ?thesis by (simp add: round_quantum_def)
next
  case False
  have "\<bar>round_quantum x - x\<bar> \<le> 2 powi (quantum x) / 2" by (rule round_quantum_err_q[OF False])
  also have "\<dots> \<le> (\<bar>x\<bar> * 2 powi (- 52) + 2 powi (- 1074)) / 2"
    using quantum_bound[OF False] by simp
  also have "\<dots> = \<bar>x\<bar> / 2 ^ 53 + 1 / 2 ^ 1075"
    by (simp add: power_int_minus field_simps)
  finally show ?thesis .
qed

lemma round_even_eqI:
  assumes "\<bar>m - of_int n\<bar> < 1 / 2"
  shows "round_even m = n"
proof -
  have f: "of_int \<lfloor>m\<rfloor> \<le> m" "m < of_int \<lfloor>m\<rfloor> + 1" by linarith+
  from assms have a: "of_int n - 1 / 2 < m" "m < of_int n + 1 / 2" by linarith+
  show ?thesis
  proof (cases "m - of_int \<lfloor>m\<rfloor> < 1 / 2")
    case True
    have "\<lfloor>m\<rfloor> = n"
    proof (rule floor_unique)
      show "of_int n \<le> m" 
      proof (rule ccontr)
        assume "\<not> of_int n \<le> m"
        then have "m < of_int n" by simp
        then have "\<lfloor>m\<rfloor> < n" by (simp add: floor_less_iff)
        then have "\<lfloor>m\<rfloor> + 1 \<le> n" by simp
        then have "(of_int (\<lfloor>m\<rfloor> + 1) :: rat) \<le> of_int n" by (simp only: of_int_le_iff)
        then show False using True a by simp
      qed
      show "m < of_int n + 1" using a by simp
    qed
    then show ?thesis using True by (simp add: round_even_def Let_def)
  next
    case False
    have "\<lfloor>m\<rfloor> = n - 1"
    proof (rule floor_unique)
      show "of_int (n - 1) \<le> m" using a by simp
      show "m < of_int (n - 1) + 1"
      proof (rule ccontr)
        assume "\<not> m < of_int (n - 1) + 1"
        then have "of_int n \<le> m" by simp
        then have "n \<le> \<lfloor>m\<rfloor>" by (simp add: le_floor_iff)
        then have "(of_int n :: rat) \<le> of_int \<lfloor>m\<rfloor>" by (simp only: of_int_le_iff)
        then show False using False a by simp
      qed
    qed
    moreover have "m - of_int \<lfloor>m\<rfloor> \<noteq> 1 / 2" using a calculation by simp
    ultimately show ?thesis using False by (simp add: round_even_def Let_def)
  qed
qed

lemma round_quantum_eqI:
  assumes "x \<noteq> 0" "2 powi e \<le> \<bar>x\<bar>" "\<bar>x\<bar> < 2 powi (e + 1)" "- 1022 \<le> e"
    and "\<bar>x / 2 powi (e - 52) - of_int n\<bar> < 1 / 2"
  shows "round_quantum x = of_int n * 2 powi (e - 52)"
proof -
  have "ilog2 \<bar>x\<bar> = e" using assms by (intro ilog2_eqI) simp_all
  then have "quantum x = e - 52" using assms(4) by (simp add: quantum_def)
  then show ?thesis using assms(1) round_even_eqI[OF assms(5)] by (simp add: round_quantum_def)
qed

lemma float64_round_Fin:
  assumes "\<bar>x\<bar> \<le> 2 ^ 100"
  shows "float64_round x = Fin (round_quantum x)"
proof -
  have "\<bar>round_quantum x - x\<bar> \<le> \<bar>x\<bar> / 2 ^ 53 + 1 / 2 ^ 1075" by (rule round_quantum_err)
  also have "\<dots> \<le> 2 ^ 100 / 2 ^ 53 + 1 / 2 ^ 1075" using assms by (simp add: divide_right_mono)
  finally have "\<bar>round_quantum x\<bar> \<le> 2 ^ 100 + (2 ^ 100 / 2 ^ 53 + 1 / 2 ^ 1075)"
    using assms by linarith
  also have "\<dots> < 2 ^ 1024" by simp
  finally have "\<bar>round_quantum x\<bar> < 2 ^ 1024" .
  then have "\<not> 2 ^ 1024 \<le> round_quantum x" "\<not> round_quantum x \<le> - (2 ^ 1024)" by linarith+
  then show ?thesis unfolding float64_round_def Let_def by (simp only: if_False)
qed

lemma float64_round_eqI:
  assumes "x \<noteq> 0" "2 powi e \<le> \<bar>x\<bar>" "\<bar>x\<bar> < 2 powi (e + 1)" "- 1022 \<le> e" "e < 100"
    and "\<bar>x / 2 powi (e - 52) - of_int n\<bar> < 1 / 2"
  shows "float64_round x = Fin (of_int n * 2 powi (e - 52))"
proof -
  have "(2::rat) powi (e + 1) \<le> 2 powi 100" using assms(5) by (intro powi2_mono) simp
  then have "\<bar>x\<bar> \<le> 2 ^ 100" using assms(3) by simp
  then show ?thesis using round_quantum_eqI[OF assms(1-4) assms(6)] by (simp add: float64_round_Fin)
qed

lemma float64_of_int_exact:
  assumes "\<bar>n\<bar> < 2 ^ 53"
  shows "float64_of_int n = Fin (of_int n)"
proof (cases "n = 0")
  case True
  then show ?thesis by (simp add: float64_of_int_def float64_round_def round_quantum_def)
next
  case False
  define x :: rat where "x = of_int n"
  define e where "e = ilog2 \<bar>x\<bar>"
  have x0: "x \<noteq> 0" using False by (simp add: x_def)
  have x1: "1 \<le> \<bar>x\<bar>"
  proof -
    have "1 \<le> \<bar>n\<bar>" using False by simp
    then have "(of_int 1 :: rat) \<le> of_int \<bar>n\<bar>" by (simp only: of_int_le_iff)
    then show ?thesis by (simp add: x_def)
  qed
  have x2: "\<bar>x\<bar> < 2 ^ 53"
  proof -
    have "(of_int \<bar>n\<bar> :: rat) < of_int (2 ^ 53)" using assms by (simp only: of_int_less_iff)
    then show ?thesis by (simp add: x_def)
  qed
  have lo: "2 powi e \<le> \<bar>x\<bar>" and up: "\<bar>x\<bar> < 2 powi (e + 1)"
    unfolding e_def using x0 by (simp_all add: ilog2_lower ilog2_upper)
  have e0: "0 \<le> e"
  proof (rule ccontr)
    assume "\<not> 0 \<le> e"
    then have "(2::rat) powi (e + 1) \<le> 2 powi 0" by (intro powi2_mono) simp
    with up x1 show False by simp
  qed
  have e52: "e \<le> 52"
  proof (rule ccontr)
    assume "\<not> e \<le> 52"
    then have "(2::rat) powi 53 \<le> 2 powi e" by (intro powi2_mono) simp
    with lo x2 show False by simp
  qed
  have p: "(2::rat) powi (e - 52) = 1 / 2 ^ nat (52 - e)"
  proof -
    have "e - 52 = - int (nat (52 - e))" using e52 by simp
    then show ?thesis by (simp only: power_int_minus power_int_of_nat) (simp add: field_simps)
  qed
  have "x / 2 powi (e - 52) = of_int (n * 2 ^ nat (52 - e))" by (simp add: p x_def)
  then have "\<bar>x / 2 powi (e - 52) - of_int (n * 2 ^ nat (52 - e))\<bar> < 1 / 2" by simp
  then have "float64_round x = Fin (of_int (n * 2 ^ nat (52 - e)) * 2 powi (e - 52))"
    using x0 lo up e0 e52 by (intro float64_round_eqI) simp_all
  also have "of_int (n * 2 ^ nat (52 - e)) * 2 powi (e - 52) = x" by (simp add: p x_def)
  finally show ?thesis by (simp add: float64_of_int_def x_def)
qed

lemma float64_round_16_9: "float64_round (16 / 9) = Fin (2001599834386887 / 1125899906842624)"
  using float64_round_eqI[of "16 / 9" 0 8006399337547548] by (simp add: power_int_minus)

lemma float64_round_9_16: "float64_round (9 / 16) = Fin (9 / 16)"
  using float64_round_eqI[of "9 / 16" "-1" "9 * 2 ^ 49"] by (simp add: power_int_minus)

lemma float64_round_1_1000: "float64_round (1 / 1000) = Fin (1152921504606847 / 1152921504606846976)"
  using float64_round_eqI[of "1 / 1000" "-10" 4611686018427388] by (simp add: power_int_minus)

lemma float64_round_0: "float64_round 0 = Fin 0"
  by (simp add: float64_round_def round_quantum_def)

lemma float64_ratio_15991_9000:
  "float64_round (15991 / 9000) = Fin (4000947868960089 / 2251799813685248)"
  using float64_round_eqI[of "15991 / 9000" 0 8001895737920178] by (simp add: power_int_minus)

lemma float64_diff_15991:
  "float64_round (- (2251799813685 / 2251799813685248)) = Fin (- (2251799813685 / 2251799813685248))"
  using float64_round_eqI[of "- (2251799813685 / 2251799813685248)" "-10" "- 4611686018426880"]
  by (simp add: power_int_minus)

lemma aspect_label_1920_1080: "aspect_label 1920 1080 = ''landscape''"
  unfolding aspect_label_def Let_def float64_const_def
  by (simp add: float64_of_int_exact float64_round_16_9 float64_round_1_1000 float64_round_0)

subsection \<open>Error of the computed ratio\<close>

lemma round_quantum_rel:
  assumes "2 powi (- 1022) \<le> \<bar>x\<bar>"
  shows "\<bar>round_quantum x - x\<bar> \<le> \<bar>x\<bar> / 2 ^ 53"
proof -
  have p: "0 < (2::rat) powi (- 1022)" by (rule powi2_pos)
  with assms have x0: "x \<noteq> 0" by auto
  then have ax: "0 < \<bar>x\<bar>" by simp
  define e where "e = ilog2 \<bar>x\<bar>"
  have lo: "2 powi e \<le> \<bar>x\<bar>" and up: "\<bar>x\<bar> < 2 powi (e + 1)"
    unfolding e_def using ax by (simp_all add: ilog2_lower ilog2_upper)
  have e: "- 1022 \<le> e"
  proof (rule ccontr)
    assume "\<not> - 1022 \<le> e"
    then have "(2::rat) powi (e + 1) \<le> 2 powi (- 1022)" by (intro powi2_mono) simp
    with up assms show False by linarith
  qed
  then have q: "quantum x = e - 52" by (simp add: quantum_def e_def)
  have "\<bar>round_quantum x - x\<bar> \<le> 2 powi (quantum x) / 2" by (rule round_quantum_err_q[OF x0])
  also have "\<dots> = 2 powi e / 2 ^ 53" unfolding q by (simp add: power_int_diff)
  also have "\<dots> \<le> \<bar>x\<bar> / 2 ^ 53" using lo by (simp add: divide_right_mono)
  finally show ?thesis .
qed

lemma float64_of_int_err:
  assumes "\<bar>n\<bar> \<le> 2 ^ 63"
  shows "\<exists>W. float64_of_int n = Fin W \<and> \<bar>W - of_int n\<bar> \<le> \<bar>of_int n\<bar> / 2 ^ 53"
proof (cases "n = 0")
  case True
  then show ?thesis by (simp add: float64_of_int_def float64_round_0)
next
  case False
  define x :: rat where "x = of_int n"
  have "1 \<le> \<bar>n\<bar>" using False by simp
  then have "(of_int 1 :: rat) \<le> of_int \<bar>n\<bar>" by (simp only: of_int_le_iff)
  then have x1: "1 \<le> \<bar>x\<bar>" by (simp add: x_def)
  have "(of_int \<bar>n\<bar> :: rat) \<le> of_int (2 ^ 63)" using assms by (simp only: of_int_le_iff)
  then have x2: "\<bar>x\<bar> \<le> 2 ^ 63" by (simp add: x_def)
  have "(2::rat) powi (- 1022) \<le> 2 powi 0" by (intro powi2_mono) simp
  with x1 have "2 powi (- 1022) \<le> \<bar>x\<bar>" by simp
  then have "\<bar>round_quantum x - x\<bar> \<le> \<bar>x\<bar> / 2 ^ 53" by (rule round_quantum_rel)
  moreover have "float64_round x = Fin (round_quantum x)"
    using x2 by (intro float64_round_Fin) simp
  ultimately show ?thesis by (simp add: float64_of_int_def x_def)
qed


lemma ratio_err:
  assumes "\<bar>w\<bar> \<le> 2 ^ 63" "\<bar>h\<bar> \<le> 2 ^ 63" "h \<noteq> 0"
  shows "\<exists>R. float64_div (float64_of_int w) (float64_of_int h) = Fin R \<and>
     \<bar>R - of_int w / of_int h\<bar> \<le> \<bar>of_int w / of_int h\<bar> / 2 ^ 50"
proof -
  define x :: rat where "x = of_int w"
  define y :: rat where "y = of_int h"
  define q where "q = x / y"
  have p53: "(2::rat) ^ 53 = 9007199254740992" by simp
  have p50: "(2::rat) ^ 50 = 1125899906842624" by simp
  obtain W where W: "float64_of_int w = Fin W" and We: "\<bar>W - x\<bar> \<le> \<bar>x\<bar> / 9007199254740992"
    using float64_of_int_err[OF assms(1)] unfolding x_def p53 by blast
  obtain H where H: "float64_of_int h = Fin H" and He: "\<bar>H - y\<bar> \<le> \<bar>y\<bar> / 9007199254740992"
    using float64_of_int_err[OF assms(2)] unfolding y_def p53 by blast
  define Z where "Z = W / H"
  define ax ay aq aH eW eH dZ aZ
    where "ax = \<bar>x\<bar>" and "ay = \<bar>y\<bar>" and "aq = \<bar>q\<bar>" and "aH = \<bar>H\<bar>"
      and "eW = \<bar>W - x\<bar>" and "eH = \<bar>H - y\<bar>" and "dZ = \<bar>Z - q\<bar>" and "aZ = \<bar>Z\<bar>"
  note atoms = ax_def ay_def aq_def aH_def eW_def eH_def dZ_def aZ_def
  have nonneg: "0 \<le> ax" "0 \<le> ay" "0 \<le> aq" "0 \<le> aH" "0 \<le> eW" "0 \<le> eH" "0 \<le> dZ" "0 \<le> aZ"
    unfolding atoms by simp_all
  have We': "eW \<le> ax / 9007199254740992" and He': "eH \<le> ay / 9007199254740992"
    unfolding atoms using We He by simp_all
  have "1 \<le> \<bar>h\<bar>" using assms(3) by simp
  then have "(of_int 1 :: rat) \<le> of_int \<bar>h\<bar>" by (simp only: of_int_le_iff)
  then have y1: "1 \<le> ay" by (simp add: y_def ay_def)
  then have y0: "y \<noteq> 0" unfolding ay_def by auto
  have "(of_int \<bar>w\<bar> :: rat) \<le> of_int (2 ^ 63)" using assms(1) by (simp only: of_int_le_iff)
  then have x2: "ax \<le> 9223372036854775808" by (simp add: x_def ax_def)
  have "(of_int \<bar>h\<bar> :: rat) \<le> of_int (2 ^ 63)" using assms(2) by (simp only: of_int_le_iff)
  then have y2: "ay \<le> 9223372036854775808" by (simp add: y_def ay_def)
  have "ay \<le> aH + eH" unfolding atoms by linarith
  with He' y1 have Hy: "ay / 2 \<le> aH" by linarith
  then have H0: "H \<noteq> 0" using y1 unfolding aH_def by auto
  have qy: "aq * ay = ax" using y0 unfolding atoms by (simp add: q_def abs_divide)
  have div: "float64_div (float64_of_int w) (float64_of_int h) = float64_round Z"
    by (simp add: W H H0 Z_def)
  have "(Z - q) * H = (W - x) - q * (H - y)"
    using H0 y0 by (simp add: Z_def q_def field_simps)
  then have "\<bar>Z - q\<bar> * \<bar>H\<bar> = \<bar>(W - x) - q * (H - y)\<bar>" by (simp add: abs_mult[symmetric])
  also have "\<dots> \<le> \<bar>W - x\<bar> + \<bar>q * (H - y)\<bar>" by (rule abs_triangle_ineq4)
  also have "\<dots> = eW + aq * eH" unfolding atoms by (simp add: abs_mult)
  finally have a: "dZ * aH \<le> eW + aq * eH" unfolding atoms .
  have b: "aq * eH \<le> aq * (ay / 9007199254740992)"
    using He' nonneg(3) by (rule mult_left_mono)
  have c: "dZ * (ay / 2) \<le> dZ * aH" using Hy nonneg(7) by (rule mult_left_mono)
  have d: "aq * (ay / 9007199254740992) = ax / 9007199254740992" using qy by simp
  from a b c d We' have "dZ * (ay / 2) \<le> ax / 4503599627370496" by linarith
  moreover have "dZ * (ay / 2) = (dZ / 2) * ay" by simp
  moreover have "ax / 4503599627370496 = (aq / 4503599627370496) * ay" using qy by simp
  ultimately have e: "(dZ / 2) * ay \<le> (aq / 4503599627370496) * ay" by simp
  have ypos: "0 < ay" using y1 by linarith
  have "dZ / 2 \<le> aq / 4503599627370496" by (rule mult_right_le_imp_le[OF e ypos])
  then have Zq: "dZ \<le> aq / 2251799813685248" by linarith
  have q2: "aq \<le> 9223372036854775808"
  proof -
    have "aq * 1 \<le> aq * ay" using y1 nonneg(3) by (rule mult_left_mono)
    with qy x2 show ?thesis by simp
  qed
  show ?thesis
  proof (cases "w = 0")
    case True
    then have "x = 0" by (simp add: x_def)
    with We have "W = 0" by simp
    then have "float64_div (float64_of_int w) (float64_of_int h) = Fin 0"
      using div by (simp add: float64_round_0 Z_def)
    then show ?thesis using True by simp
  next
    case False
    then have "1 \<le> \<bar>w\<bar>" by simp
    then have "(of_int 1 :: rat) \<le> of_int \<bar>w\<bar>" by (simp only: of_int_le_iff)
    then have x1: "1 \<le> ax" by (simp add: x_def ax_def)
    have q1: "1 / 9223372036854775808 \<le> aq"
    proof -
      have "aq * ay \<le> aq * 9223372036854775808" using y2 nonneg(3) by (rule mult_left_mono)
      with qy x1 show ?thesis by linarith
    qed
    have tr1: "aq \<le> aZ + dZ" unfolding atoms by linarith
    have tr2: "aZ \<le> aq + dZ" unfolding atoms by linarith
    have Zlo: "aq / 2 \<le> aZ" and Zup: "aZ \<le> 2 * aq" using Zq tr1 tr2 nonneg(3) by linarith+
    have "(2::rat) powi (- 1022) \<le> 2 powi (- 64)" by (intro powi2_mono) simp
    also have "\<dots> = 1 / 18446744073709551616" by (simp add: power_int_minus)
    also have "\<dots> \<le> aZ" using q1 Zlo by linarith
    finally have "2 powi (- 1022) \<le> \<bar>Z\<bar>" unfolding aZ_def .
    then have "\<bar>round_quantum Z - Z\<bar> \<le> \<bar>Z\<bar> / 2 ^ 53" by (rule round_quantum_rel)
    then have Re: "\<bar>round_quantum Z - Z\<bar> \<le> aZ / 9007199254740992" unfolding p53 aZ_def .
    define eR dR where "eR = \<bar>round_quantum Z - Z\<bar>" and "dR = \<bar>round_quantum Z - q\<bar>"
    have "dR \<le> eR + dZ" unfolding eR_def dR_def dZ_def by linarith
    moreover have "eR \<le> aZ / 9007199254740992" using Re unfolding eR_def .
    ultimately have "dR \<le> aq / 1125899906842624" using Zq Zup nonneg(3) by linarith
    then have "\<bar>round_quantum Z - q\<bar> \<le> \<bar>q\<bar> / 2 ^ 50" unfolding p50 dR_def aq_def .
    moreover have "aZ \<le> 2 ^ 100" using Zup q2 by simp
    then have "float64_round Z = Fin (round_quantum Z)" unfolding aZ_def by (rule float64_round_Fin)
    ultimately show ?thesis using div unfolding q_def x_def y_def by simp
  qed
qed


subsection \<open>The tolerance test\<close>

lemma tolerance_test:
  assumes R: "\<bar>R - q\<bar> \<le> \<bar>q\<bar> / 2 ^ 50" and q2: "\<bar>q\<bar> \<le> 2 ^ 64"
    and c: "1 / 2 \<le> c" "c \<le> 2"
  shows "\<bar>q - c\<bar> \<le> 1 / 1000 - 1 / 10 ^ 12 \<Longrightarrow>
      float64_less (float64_abs (float64_sub (Fin R) (float64_const c))) (float64_const (1 / 1000))"
    and "float64_less (float64_abs (float64_sub (Fin R) (float64_const c))) (float64_const (1 / 1000)) \<Longrightarrow>
      \<bar>q - c\<bar> \<le> 1 / 1000 + 1 / 10 ^ 12"
proof -
  have p53: "(2::rat) ^ 53 = 9007199254740992" by simp
  have p50: "(2::rat) ^ 50 = 1125899906842624" by simp
  have p64: "(2::rat) ^ 64 = 18446744073709551616" by simp
  have p12: "(10::rat) ^ 12 = 1000000000000" by simp
  have t: "(1::rat) / 2 ^ 1075 \<le> 1 / 9007199254740992" by simp
  define C where "C = round_quantum c"
  define D where "D = round_quantum (R - C)"
  define T :: rat where "T = 1152921504606847 / 1152921504606846976"
  define aq dR eC g aRC aD eD aR aC
    where "aq = \<bar>q\<bar>" and "dR = \<bar>R - q\<bar>" and "eC = \<bar>C - c\<bar>" and "g = \<bar>q - c\<bar>"
      and "aRC = \<bar>R - C\<bar>" and "aD = \<bar>D\<bar>" and "eD = \<bar>D - (R - C)\<bar>"
      and "aR = \<bar>R\<bar>" and "aC = \<bar>C\<bar>"
  note atoms = aq_def dR_def eC_def g_def aRC_def aD_def eD_def aR_def aC_def
  have nonneg: "0 \<le> aq" "0 \<le> dR" "0 \<le> eC" "0 \<le> g" "0 \<le> aRC" "0 \<le> aD" "0 \<le> eD"
    "0 \<le> aR" "0 \<le> aC"
    unfolding atoms by simp_all
  have c0: "\<bar>c\<bar> = c" using c by simp
  have "(2::rat) powi (- 1022) \<le> 2 powi (- 1)" by (intro powi2_mono) simp
  also have "\<dots> = 1 / 2" by (simp add: power_int_minus)
  also have "\<dots> \<le> \<bar>c\<bar>" using c by simp
  finally have "\<bar>round_quantum c - c\<bar> \<le> \<bar>c\<bar> / 2 ^ 53" by (rule round_quantum_rel)
  then have eC: "eC \<le> c / 9007199254740992" unfolding atoms C_def p53 c0 .
  have "\<bar>c\<bar> \<le> 2 ^ 100" using c by simp
  then have constC: "float64_const c = Fin C"
    unfolding float64_const_def C_def by (rule float64_round_Fin)
  have constT: "float64_const (1 / 1000) = Fin T"
    unfolding float64_const_def T_def by (rule float64_round_1_1000)
  have dR: "dR \<le> aq / 1125899906842624" using R unfolding atoms p50 .
  have aq2: "aq \<le> 18446744073709551616" using q2 unfolding atoms p64 .
  have tr: "aRC \<le> g + dR + eC" "g \<le> aRC + dR + eC" "aD \<le> aRC + eD" "aRC \<le> aD + eD"
    "aq \<le> g + c" "aR \<le> aq + dR" "aq \<le> aR + dR" "aC \<le> c + eC" "aR \<le> aRC + aC"
    "aRC \<le> aR + aC"
    unfolding atoms using c by linarith+
  have "aRC \<le> 2 ^ 100" using tr(10) tr(6) tr(8) dR aq2 eC c nonneg by simp
  then have "float64_round (R - C) = Fin D" unfolding atoms D_def by (rule float64_round_Fin)
  then have sub: "float64_sub (Fin R) (float64_const c) = Fin D" by (simp add: constC)
  have test: "float64_less (float64_abs (float64_sub (Fin R) (float64_const c)))
      (float64_const (1 / 1000)) \<longleftrightarrow> aD < T"
    by (simp add: sub constT aD_def)
  have "\<bar>round_quantum (R - C) - (R - C)\<bar> \<le> \<bar>R - C\<bar> / 2 ^ 53 + 1 / 2 ^ 1075"
    by (rule round_quantum_err)
  then have "eD \<le> aRC / 9007199254740992 + 1 / 2 ^ 1075" unfolding atoms D_def p53 .
  with t have eD: "eD \<le> aRC / 9007199254740992 + 1 / 9007199254740992" by linarith
  {
    assume "\<bar>q - c\<bar> \<le> 1 / 1000 - 1 / 10 ^ 12"
    then have g: "g \<le> 1 / 1000 - 1 / 1000000000000" unfolding atoms p12 .
    have "aD < T" unfolding T_def using g tr eD eC dR c nonneg by linarith
    then show "float64_less (float64_abs (float64_sub (Fin R) (float64_const c)))
      (float64_const (1 / 1000))" using test by simp
  }
  {
    assume "float64_less (float64_abs (float64_sub (Fin R) (float64_const c)))
      (float64_const (1 / 1000))"
    then have "aD < 1152921504606847 / 1152921504606846976" using test unfolding T_def by simp
    then have "g \<le> 1 / 1000 + 1 / 1000000000000" using tr eD eC dR c nonneg by linarith
    then show "\<bar>q - c\<bar> \<le> 1 / 1000 + 1 / 10 ^ 12" unfolding atoms p12 .
  }
qed


subsection \<open>The label within the tolerance\<close>

lemma aspect_label_zero_height:
  assumes "\<bar>w\<bar> \<le> 2 ^ 63"
  shows "aspect_label w 0 = ''other''"
proof -
  obtain W where W: "float64_of_int w = Fin W"
    using float64_of_int_err[OF assms] by blast
  have "float64_of_int 0 = Fin 0" by (simp add: float64_of_int_def float64_round_0)
  then show ?thesis
    unfolding aspect_label_def Let_def float64_const_def
    by (simp add: W float64_round_16_9 float64_round_9_16 float64_round_1_1000)
qed

lemma aspect_label_bounds:
  fixes w h :: int
  defines "q \<equiv> (of_int w / of_int h :: rat)"
  assumes w: "\<bar>w\<bar> \<le> 2 ^ 63" and h: "\<bar>h\<bar> \<le> 2 ^ 63"
  shows "h \<noteq> 0 \<Longrightarrow> \<bar>q - 16 / 9\<bar> \<le> 1 / 1000 - 1 / 10 ^ 12 \<Longrightarrow> aspect_label w h = ''landscape''"
    and "aspect_label w h = ''landscape'' \<Longrightarrow> h \<noteq> 0 \<and> \<bar>q - 16 / 9\<bar> \<le> 1 / 1000 + 1 / 10 ^ 12"
    and "h \<noteq> 0 \<Longrightarrow> \<bar>q - 9 / 16\<bar> \<le> 1 / 1000 - 1 / 10 ^ 12 \<Longrightarrow> aspect_label w h = ''portrait''"
    and "aspect_label w h = ''portrait'' \<Longrightarrow> h \<noteq> 0 \<and> \<bar>q - 9 / 16\<bar> \<le> 1 / 1000 + 1 / 10 ^ 12"
proof -
  have zero: "h = 0 \<Longrightarrow> aspect_label w h = ''other''"
    using aspect_label_zero_height[OF w] by simp
  have p12: "(10::rat) ^ 12 = 1000000000000" by simp
  have nz: "(\<bar>q - 16 / 9\<bar> \<le> 1 / 1000 - 1 / 10 ^ 12 \<longrightarrow> aspect_label w h = ''landscape'') \<and>
      (aspect_label w h = ''landscape'' \<longrightarrow> \<bar>q - 16 / 9\<bar> \<le> 1 / 1000 + 1 / 10 ^ 12) \<and>
      (\<bar>q - 9 / 16\<bar> \<le> 1 / 1000 - 1 / 10 ^ 12 \<longrightarrow> aspect_label w h = ''portrait'') \<and>
      (aspect_label w h = ''portrait'' \<longrightarrow> \<bar>q - 9 / 16\<bar> \<le> 1 / 1000 + 1 / 10 ^ 12)"
    if h0: "h \<noteq> 0"
  proof -
    obtain R where div: "float64_div (float64_of_int w) (float64_of_int h) = Fin R"
      and R: "\<bar>R - q\<bar> \<le> \<bar>q\<bar> / 2 ^ 50"
      using ratio_err[OF w h h0] unfolding q_def by blast
    have "1 \<le> \<bar>h\<bar>" using h0 by simp
    then have "(of_int 1 :: rat) \<le> of_int \<bar>h\<bar>" by (simp only: of_int_le_iff)
    then have y1: "1 \<le> \<bar>of_int h :: rat\<bar>" by simp
    have "(of_int \<bar>w\<bar> :: rat) \<le> of_int (2 ^ 63)" using w by (simp only: of_int_le_iff)
    then have x2: "\<bar>of_int w :: rat\<bar> \<le> 2 ^ 63" by simp
    have "\<bar>q\<bar> * 1 \<le> \<bar>q\<bar> * \<bar>of_int h :: rat\<bar>" using y1 by (intro mult_left_mono) simp_all
    moreover have "\<bar>q\<bar> * \<bar>of_int h :: rat\<bar> = \<bar>of_int w\<bar>"
      using h0 by (simp add: q_def abs_divide)
    ultimately have "\<bar>q\<bar> \<le> 2 ^ 63" using x2 by simp
    then have q2: "\<bar>q\<bar> \<le> 2 ^ 64" by simp
    define tL where "tL = float64_less (float64_abs (float64_sub (Fin R) (float64_const (16 / 9))))
        (float64_const (1 / 1000))"
    define tP where "tP = float64_less (float64_abs (float64_sub (Fin R) (float64_const (9 / 16))))
        (float64_const (1 / 1000))"
    have label: "aspect_label w h =
        (if tL then ''landscape'' else if tP then ''portrait'' else ''other'')"
      by (simp add: aspect_label_def div tL_def tP_def)
    have L1: "\<bar>q - 16 / 9\<bar> \<le> 1 / 1000 - 1 / 10 ^ 12 \<Longrightarrow> tL"
      unfolding tL_def by (rule tolerance_test(1)[OF R q2]) simp_all
    have L2: "tL \<Longrightarrow> \<bar>q - 16 / 9\<bar> \<le> 1 / 1000 + 1 / 10 ^ 12"
      unfolding tL_def by (rule tolerance_test(2)[OF R q2]) simp_all
    have P1: "\<bar>q - 9 / 16\<bar> \<le> 1 / 1000 - 1 / 10 ^ 12 \<Longrightarrow> tP"
      unfolding tP_def by (rule tolerance_test(1)[OF R q2]) simp_all
    have P2: "tP \<Longrightarrow> \<bar>q - 9 / 16\<bar> \<le> 1 / 1000 + 1 / 10 ^ 12"
      unfolding tP_def by (rule tolerance_test(2)[OF R q2]) simp_all
    have apart: "\<not> tL" if a: "\<bar>q - 9 / 16\<bar> \<le> 1 / 1000 - 1 / 10 ^ 12"
    proof
      assume "tL"
      then have b: "\<bar>q - 16 / 9\<bar> \<le> 1 / 1000 + 1 / 10 ^ 12" by (rule L2)
      define g1 g2 where "g1 = \<bar>q - 16 / 9\<bar>" and "g2 = \<bar>q - 9 / 16\<bar>"
      have "1 \<le> g1 + g2" unfolding g1_def g2_def by linarith
      moreover have "g1 \<le> 1 / 1000 + 1 / 1000000000000" using b unfolding g1_def p12 .
      moreover have "g2 \<le> 1 / 1000 - 1 / 1000000000000" using a unfolding g2_def p12 .
      ultimately show False by linarith
    qed
    have c1: "\<bar>q - 16 / 9\<bar> \<le> 1 / 1000 - 1 / 10 ^ 12 \<longrightarrow> aspect_label w h = ''landscape''"
      using L1 label by simp
    have c2: "aspect_label w h = ''landscape'' \<longrightarrow> \<bar>q - 16 / 9\<bar> \<le> 1 / 1000 + 1 / 10 ^ 12"
    proof
      assume "aspect_label w h = ''landscape''"
      then have tL unfolding label by (simp split: if_splits)
      then show "\<bar>q - 16 / 9\<bar> \<le> 1 / 1000 + 1 / 10 ^ 12" by (rule L2)
    qed
    have c3: "\<bar>q - 9 / 16\<bar> \<le> 1 / 1000 - 1 / 10 ^ 12 \<longrightarrow> aspect_label w h = ''portrait''"
      using P1 apart label by simp
    have c4: "aspect_label w h = ''portrait'' \<longrightarrow> \<bar>q - 9 / 16\<bar> \<le> 1 / 1000 + 1 / 10 ^ 12"
    proof
      assume "aspect_label w h = ''portrait''"
      then have tP unfolding label by (simp split: if_splits)
      then show "\<bar>q - 9 / 16\<bar> \<le> 1 / 1000 + 1 / 10 ^ 12" by (rule P2)
    qed
    from c1 c2 c3 c4 show ?thesis by (intro conjI)
  qed
  note n1 = nz[THEN conjunct1, THEN mp]
  note n2 = nz[THEN conjunct2, THEN conjunct1, THEN mp]
  note n3 = nz[THEN conjunct2, THEN conjunct2, THEN conjunct1, THEN mp]
  note n4 = nz[THEN conjunct2, THEN conjunct2, THEN conjunct2, THEN mp]
  show "h \<noteq> 0 \<Longrightarrow> \<bar>q - 16 / 9\<bar> \<le> 1 / 1000 - 1 / 10 ^ 12 \<Longrightarrow> aspect_label w h = ''landscape''"
    by (rule n1)
  show "h \<noteq> 0 \<Longrightarrow> \<bar>q - 9 / 16\<bar> \<le> 1 / 1000 - 1 / 10 ^ 12 \<Longrightarrow> aspect_label w h = ''portrait''"
    by (rule n3)
  show "aspect_label w h = ''landscape'' \<Longrightarrow> h \<noteq> 0 \<and> \<bar>q - 16 / 9\<bar> \<le> 1 / 1000 + 1 / 10 ^ 12"
  proof -
    assume a: "aspect_label w h = ''landscape''"
    have h0: "h \<noteq> 0" using zero a by auto
    from h0 n2[OF h0 a] show ?thesis by (rule conjI)
  qed
  show "aspect_label w h = ''portrait'' \<Longrightarrow> h \<noteq> 0 \<and> \<bar>q - 9 / 16\<bar> \<le> 1 / 1000 + 1 / 10 ^ 12"
  proof -
    assume a: "aspect_label w h = ''portrait''"
    have h0: "h \<noteq> 0" using zero a by auto
    from h0 n4[OF h0 a] show ?thesis by (rule conjI)
  qed
qed

lemma aspect_label_1080_1920: "aspect_label 1080 1920 = ''portrait''"
  using aspect_label_bounds(3)[of 1080 1920] by simp

lemma aspect_label_1000_1000: "aspect_label 1000 1000 = ''other''"
proof -
  have "aspect_label 1000 1000 \<noteq> ''landscape''"
    using aspect_label_bounds(2)[of 1000 1000] by auto
  moreover have "aspect_label 1000 1000 \<noteq> ''portrait''"
    using aspect_label_bounds(4)[of 1000 1000] by auto
  ultimately show ?thesis
    by (simp add: aspect_label_def Let_def split: if_splits)
qed

subsection \<open>Helpers: base64 and Split\<close>

lemma length_encodeURL: "length encodeURL = 64"
  by (simp add: encodeURL_def)

lemma set_EncodeToString: "set (EncodeToString src) \<subseteq> set encodeURL"
  by (induction src rule: EncodeToString.induct) (simp_all add: Let_def length_encodeURL)

lemma length_EncodeToString: "length (EncodeToString src) = (length src * 4 + 2) div 3"
  by (induction src rule: EncodeToString.induct) (simp_all add: Let_def)

lemma distinct_encodeURL: "distinct encodeURL"
  by (simp add: encodeURL_def)

lemma encodeURL_nth_inj:
  "encodeURL ! (i mod 64) = encodeURL ! (j mod 64) \<longleftrightarrow> i mod 64 = j mod 64"
  by (simp add: nth_eq_iff_index_eq[OF distinct_encodeURL] length_encodeURL)

lemma sextet_eqI: "a div 64 = b div 64 \<Longrightarrow> a mod 64 = b mod 64 \<Longrightarrow> a = (b::nat)"
  by (metis div_mult_mod_eq)

lemma sextets2:
  fixes v v' :: nat
  assumes b: "v < 16777216" "v' < 16777216"
    and h3: "v div 262144 mod 64 = v' div 262144 mod 64"
    and h2: "v div 4096 mod 64 = v' div 4096 mod 64"
  shows "v div 4096 = v' div 4096"
proof -
  have d: "v div 4096 div 64 = v div 262144" "v' div 4096 div 64 = v' div 262144"
    by (simp_all add: div_mult2_eq[symmetric])
  have s: "v div 262144 < 64" "v' div 262144 < 64"
    using b by simp_all
  from h3 s have e3: "v div 262144 = v' div 262144" by simp
  show ?thesis
    by (rule sextet_eqI) (simp_all add: d e3 h2)
qed

lemma sextets3:
  fixes v v' :: nat
  assumes b: "v < 16777216" "v' < 16777216"
    and h3: "v div 262144 mod 64 = v' div 262144 mod 64"
    and h2: "v div 4096 mod 64 = v' div 4096 mod 64"
    and h1: "v div 64 mod 64 = v' div 64 mod 64"
  shows "v div 64 = v' div 64"
proof -
  have d: "v div 64 div 64 = v div 4096" "v' div 64 div 64 = v' div 4096"
    by (simp_all add: div_mult2_eq[symmetric])
  show ?thesis
    by (rule sextet_eqI) (simp_all add: d sextets2[OF b h3 h2] h1)
qed

lemma sextets4:
  fixes v v' :: nat
  assumes b: "v < 16777216" "v' < 16777216"
    and h3: "v div 262144 mod 64 = v' div 262144 mod 64"
    and h2: "v div 4096 mod 64 = v' div 4096 mod 64"
    and h1: "v div 64 mod 64 = v' div 64 mod 64"
    and h0: "v mod 64 = v' mod 64"
  shows "v = v'"
  by (rule sextet_eqI) (simp_all add: sextets3[OF b h3 h2 h1] h0)

lemma unat_byte: "unat (a :: 8 word) < 256"
  using unsigned_less[of a, where 'a = nat] by simp

lemma base_split:
  fixes x y x' y' k :: nat
  assumes "x * k + y = x' * k + y'" "y < k" "y' < k"
  shows "x = x' \<and> y = y'"
proof -
  have "(x * k + y) div k = x" "(x' * k + y') div k = x'" using assms(2,3) by simp_all
  with assms(1) have "x = x'" by simp
  with assms(1) show ?thesis by simp
qed

lemma group3_inj:
  fixes a b c a' b' c' :: "8 word"
  assumes "(unat a * 65536 + unat b * 256 + unat c) div 262144 mod 64 =
      (unat a' * 65536 + unat b' * 256 + unat c') div 262144 mod 64"
    "(unat a * 65536 + unat b * 256 + unat c) div 4096 mod 64 =
      (unat a' * 65536 + unat b' * 256 + unat c') div 4096 mod 64"
    "(unat a * 65536 + unat b * 256 + unat c) div 64 mod 64 =
      (unat a' * 65536 + unat b' * 256 + unat c') div 64 mod 64"
    "(unat a * 65536 + unat b * 256 + unat c) mod 64 =
      (unat a' * 65536 + unat b' * 256 + unat c') mod 64"
  shows "a = a' \<and> b = b' \<and> c = c'"
proof -
  note bd = unat_byte[of a] unat_byte[of b] unat_byte[of c]
    unat_byte[of a'] unat_byte[of b'] unat_byte[of c']
  have b: "unat a * 65536 + unat b * 256 + unat c < 16777216"
    "unat a' * 65536 + unat b' * 256 + unat c' < 16777216"
    using bd by linarith+
  from sextets4[OF b assms]
  have "(unat a * 256 + unat b) * 256 + unat c = (unat a' * 256 + unat b') * 256 + unat c'"
    by simp
  from base_split[OF this bd(3) bd(6)]
  have e: "unat a * 256 + unat b = unat a' * 256 + unat b'" and c: "unat c = unat c'"
    by simp_all
  from base_split[OF e bd(2) bd(5)] c show ?thesis by (simp add: word_unat_eq_iff)
qed

lemma group2_inj:
  fixes a b a' b' :: "8 word"
  assumes "(unat a * 65536 + unat b * 256) div 262144 mod 64 =
      (unat a' * 65536 + unat b' * 256) div 262144 mod 64"
    "(unat a * 65536 + unat b * 256) div 4096 mod 64 =
      (unat a' * 65536 + unat b' * 256) div 4096 mod 64"
    "(unat a * 65536 + unat b * 256) div 64 mod 64 =
      (unat a' * 65536 + unat b' * 256) div 64 mod 64"
  shows "a = a' \<and> b = b'"
proof -
  note bd = unat_byte[of a] unat_byte[of b] unat_byte[of a'] unat_byte[of b']
  have b: "unat a * 65536 + unat b * 256 < 16777216"
    "unat a' * 65536 + unat b' * 256 < 16777216"
    using bd by linarith+
  have "(unat a * 65536 + unat b * 256) div 64 = unat a * 1024 + unat b * 4"
    "(unat a' * 65536 + unat b' * 256) div 64 = unat a' * 1024 + unat b' * 4"
    by simp_all
  with sextets3[OF b assms]
  have "unat a * 1024 + unat b * 4 = unat a' * 1024 + unat b' * 4" by simp
  then have e: "unat a * 256 + unat b = unat a' * 256 + unat b'" by simp
  from base_split[OF e bd(2) bd(4)] show ?thesis by (simp add: word_unat_eq_iff)
qed

lemma group1_inj:
  fixes a a' :: "8 word"
  assumes "(unat a * 65536) div 262144 mod 64 = (unat a' * 65536) div 262144 mod 64"
    "(unat a * 65536) div 4096 mod 64 = (unat a' * 65536) div 4096 mod 64"
  shows "a = a'"
proof -
  note bd = unat_byte[of a] unat_byte[of a']
  have b: "unat a * 65536 < 16777216" "unat a' * 65536 < 16777216"
    using bd by linarith+
  have "(unat a * 65536) div 4096 = unat a * 16" "(unat a' * 65536) div 4096 = unat a' * 16"
    by simp_all
  with sextets2[OF b assms] have "unat a = unat a'"
    by simp
  then show ?thesis by (simp add: word_unat_eq_iff)
qed

lemma EncodeToString_Cons3:
  "EncodeToString (a # b # c # src) = EncodeToString (a' # b' # c' # src') \<Longrightarrow>
     a = a' \<and> b = b' \<and> c = c' \<and> EncodeToString src = EncodeToString src'"
  using group3_inj[of a b c a' b' c'] by (simp add: Let_def encodeURL_nth_inj)

lemma EncodeToString_inj:
  "EncodeToString xs = EncodeToString ys \<Longrightarrow> xs = ys"
proof (induction xs arbitrary: ys rule: EncodeToString.induct)
  case (1 a b c src)
  have "length (EncodeToString (a # b # c # src)) = length (EncodeToString ys)"
    using 1(2) by (rule arg_cong)
  then have "3 \<le> length ys" unfolding length_EncodeToString by simp
  then obtain a' b' c' src' where ys: "ys = a' # b' # c' # src'"
    by (cases ys; cases "tl ys"; cases "tl (tl ys)") auto
  from EncodeToString_Cons3[OF 1(2)[unfolded ys]] 1(1) show ?case unfolding ys by simp
next
  case (2 a b)
  have "length (EncodeToString [a, b]) = length (EncodeToString ys)"
    using 2 by (rule arg_cong)
  then have "length ys = 2" unfolding length_EncodeToString by simp
  then obtain a' b' where ys: "ys = [a', b']"
    by (cases ys; cases "tl ys") auto
  from 2 show ?case unfolding ys
    using group2_inj[of a b a' b'] by (simp add: Let_def encodeURL_nth_inj)
next
  case (3 a)
  have "length (EncodeToString [a]) = length (EncodeToString ys)"
    using 3 by (rule arg_cong)
  then have "length ys = 1" unfolding length_EncodeToString by simp
  then obtain a' where ys: "ys = [a']"
    by (cases ys) auto
  from 3 show ?case unfolding ys
    using group1_inj[of a a'] by (simp add: Let_def encodeURL_nth_inj)
next
  case 4
  then show ?case by (cases ys rule: EncodeToString.cases) (simp_all add: Let_def)
qed

lemma length_rand_Read: "length (rand_Read env b) = length b"
  by (simp add: rand_Read_def)


lemma pad_notin_encodeURL: "CHR ''='' \<notin> set encodeURL"
  by (simp add: encodeURL_def)

lemma Split_nonempty: "Split s sep \<noteq> []"
  by (induction s) (auto split: list.splits)

lemma Split_no_sep: "sep \<notin> set a \<Longrightarrow> Split a sep = [a]"
  by (induction a) auto

lemma Split_append: "sep \<notin> set a \<Longrightarrow> Split (a @ sep # b) sep = a # Split b sep"
  by (induction a) auto

lemma aspect_label_cases:
  "aspect_label w h = ''landscape'' \<or> aspect_label w h = ''portrait'' \<or> aspect_label w h = ''other''"
  by (simp add: aspect_label_def Let_def)


subsection \<open>Helpers: effects of the functions on the state\<close>

lemma called_fields [simp]:
  "db (called e s) = db s" "disk (called e s) = disk s" "objects (called e s) = objects s"
  "trace (called e s) = trace s @ [e]"
  by (simp_all add: called_def)

lemma Remove_fields [simp]:
  "db (Remove n s) = db s" "disk (Remove n s) = removeAll n (disk s)"
  "objects (Remove n s) = objects s"
  by (simp_all add: Remove_def)

lemma getVideoAspectRatio_state:
  "getVideoAspectRatio env p s = (r, s') \<Longrightarrow> s' = called (ffprobe_call p) s"
  by (auto simp: getVideoAspectRatio_def Let_def split: option.splits sum.splits list.splits)

lemma dbVideoToSignedVideo_state:
  "dbVideoToSignedVideo env v s = (r, s') \<Longrightarrow>
     db s' = db s \<and> disk s' = disk s \<and> objects s' = objects s \<and>
     fst (dbVideoToSignedVideo env v s) = r"
  by (auto simp: dbVideoToSignedVideo_def generatePresignedURL_def Let_def
      split: option.splits sum.splits if_splits)

lemma processVideoForFastStart_state:
  "processVideoForFastStart env p s = (r, s') \<Longrightarrow>
     db s' = db s \<and> objects s' = objects s \<and>
     (case r of Inl err \<Rightarrow> disk s' = disk s
      | Inr out \<Rightarrow> out = p @ ''.processing'' \<and> ffmpeg_Run env = None \<and> disk s' = out # disk s)"
  by (auto simp: processVideoForFastStart_def Let_def split: option.splits)

lemma FormFile_limited_state:
  assumes "FormFile_limited env s = (r, s0)"
  shows "db s0 = db s \<and> objects s0 = objects s \<and>
     (case r of
        Some err \<Rightarrow> s0 = s
      | None \<Rightarrow> body_read env \<le> 2 ^ 30 \<and> FormFile env = None \<and>
          disk s0 = (if 32 * 2 ^ 20 < part_size env then multipart_temp env # disk s else disk s))"
proof -
  have r: "r = fst (FormFile_limited env s)" and s0: "s0 = snd (FormFile_limited env s)"
    using assms by simp_all
  show ?thesis
  proof (cases "2 ^ 30 < body_read env")
    case True
    then show ?thesis unfolding r s0 by (simp add: FormFile_limited_def)
  next
    case False
    note small = this
    show ?thesis
    proof (cases "FormFile env")
      case None
      with small show ?thesis unfolding r s0 by (simp add: FormFile_limited_def)
    next
      case (Some e)
      with small show ?thesis unfolding r s0 by (simp add: FormFile_limited_def)
    qed
  qed
qed


lemma s3_PutObject_None:
  "s3_PutObject env bucket = None \<longleftrightarrow> set bucket \<subseteq> set bucket_chars \<and> PutObject env = None"
  by (simp add: s3_PutObject_def)

lemma dbVideoToSignedVideo_joined:
  assumes "CHR '','' \<notin> set bucket" "CHR '','' \<notin> set key"
  shows "fst (dbVideoToSignedVideo env (video\<lparr>VideoURL := Some (bucket @ '','' @ key)\<rparr>) s) =
     (case PresignGetObject env bucket key (10 * Minute) of
        Inl err \<Rightarrow> Err err
      | Inr url \<Rightarrow> Ok (video\<lparr>VideoURL := Some url\<rparr>))"
proof -
  have "Split (bucket @ '','' @ key) (CHR '','') = [bucket, key]"
    using assms by (simp add: Split_append Split_no_sep)
  then show ?thesis
    by (simp add: dbVideoToSignedVideo_def generatePresignedURL_def Let_def split: sum.splits)
qed

text \<open>The key derived at line 117 and the record persisted at line 133.\<close>

lemma publish_json:
  assumes "publish cfg env video mt tmp fast s = (RespondWithJSON code v, s')"
  shows "\<exists>st sts key video1 s5.
     ffprobe_Run env = None \<and> Unmarshal env = Inr (st # sts) \<and>
     set (s3Bucket cfg) \<subseteq> set bucket_chars \<and>
     PutObject env = None \<and> UpdateVideo env = None \<and> code = 200 \<and>
     key = aspect_label (Width st) (Height st) @ ''/'' @
           EncodeToString (rand_Read env (replicate 32 0)) @ ''.'' @ getExtension mt \<and>
     video1 = video\<lparr>VideoURL := Some (s3Bucket cfg @ '','' @ key)\<rparr> \<and>
     objects s' = (s3Bucket cfg, key, mt, fast) # objects s \<and>
     db s' = (db s)(ID video \<mapsto> video1) \<and> disk s' = disk s \<and>
     fst (dbVideoToSignedVideo env video1 s5) = Ok v"
  using assms unfolding publish_def Let_def
  by (auto split: prod.splits result.splits option.splits sum.splits list.splits
      simp: getVideoAspectRatio_def Let_def s3_PutObject_None dest!: dbVideoToSignedVideo_state)


lemma stage_json:
  assumes "stage cfg env video mt tmp s = (RespondWithJSON code v, s')"
  shows "\<exists>st sts key video1 s5.
     Copy env = None \<and> Seek env = None \<and> ffmpeg_Run env = None \<and> Open env = None \<and>
     ffprobe_Run env = None \<and> Unmarshal env = Inr (st # sts) \<and>
     set (s3Bucket cfg) \<subseteq> set bucket_chars \<and>
     PutObject env = None \<and> UpdateVideo env = None \<and> code = 200 \<and>
     key = aspect_label (Width st) (Height st) @ ''/'' @
           EncodeToString (rand_Read env (replicate 32 0)) @ ''.'' @ getExtension mt \<and>
     video1 = video\<lparr>VideoURL := Some (s3Bucket cfg @ '','' @ key)\<rparr> \<and>
     objects s' = (s3Bucket cfg, key, mt, tmp @ ''.processing'') # objects s \<and>
     db s' = (db s)(ID video \<mapsto> video1) \<and>
     disk s' = removeAll (tmp @ ''.processing'') ((tmp @ ''.processing'') # disk s) \<and>
     fst (dbVideoToSignedVideo env video1 s5) = Ok v"
  using assms unfolding stage_def Let_def
  by (auto split: prod.splits sum.splits option.splits
      dest!: processVideoForFastStart_state publish_json)

lemma handler_json:
  assumes "handlerUploadVideo cfg env s = (RespondWithJSON code v, s')"
  shows "\<exists>videoID token video tmp st sts key video1 s5.
     uuid_Parse env = Inr videoID \<and> GetBearerToken env = Inr token \<and>
     ValidateJWT env = Inr (UserID video) \<and> db s videoID = Some video \<and>
     body_read env \<le> 2 ^ 30 \<and> FormFile env = None \<and>
     ParseMediaType env = Inr ''video/mp4'' \<and> CreateTemp env = Inr tmp \<and>
     Copy env = None \<and> Seek env = None \<and> ffmpeg_Run env = None \<and> Open env = None \<and>
     ffprobe_Run env = None \<and> Unmarshal env = Inr (st # sts) \<and>
     set (s3Bucket cfg) \<subseteq> set bucket_chars \<and>
     PutObject env = None \<and> UpdateVideo env = None \<and> code = 200 \<and>
     key = aspect_label (Width st) (Height st) @ ''/'' @
           EncodeToString (rand_Read env (replicate 32 0)) @ ''.'' @ getExtension ''video/mp4'' \<and>
     video1 = video\<lparr>VideoURL := Some (s3Bucket cfg @ '','' @ key)\<rparr> \<and>
     objects s' = (s3Bucket cfg, key, ''video/mp4'', tmp @ ''.processing'') # objects s \<and>
     db s' = (db s)(ID video \<mapsto> video1) \<and>
     fst (dbVideoToSignedVideo env video1 s5) = Ok v"
  using assms unfolding handlerUploadVideo_def Let_def GetVideo_def
  by (auto split: prod.splits sum.splits option.splits if_splits
      dest!: FormFile_limited_state stage_json)

lemma dbVideoToSignedVideo_fst:
  "fst (dbVideoToSignedVideo env v s) =
     (case VideoURL v of
        None \<Rightarrow> Ok v
      | Some location \<Rightarrow>
          if length (Split location (CHR '','')) < 2
          then Panic ''index out of range [1] with length 1''
          else (case PresignGetObject env (Split location (CHR '','') ! 0)
                       (Split location (CHR '','') ! 1) (10 * Minute) of
                  Inl err \<Rightarrow> Err err
                | Inr url \<Rightarrow> Ok (v\<lparr>VideoURL := Some url\<rparr>)))"
  by (simp add: dbVideoToSignedVideo_def generatePresignedURL_def Let_def
      split: option.splits sum.splits)

lemma dbVideoToSignedVideo_snd [simp]:
  "db (snd (dbVideoToSignedVideo env v s)) = db s"
  "disk (snd (dbVideoToSignedVideo env v s)) = disk s"
  "objects (snd (dbVideoToSignedVideo env v s)) = objects s"
  using dbVideoToSignedVideo_state[of env v s "fst (dbVideoToSignedVideo env v s)"
      "snd (dbVideoToSignedVideo env v s)"]
  by simp_all

lemma handler_run:
  assumes "uuid_Parse env = Inr videoID" "GetBearerToken env = Inr token"
    "ValidateJWT env = Inr (UserID video)" "db s videoID = Some video"
    "body_read env \<le> 2 ^ 30" "FormFile env = None" "ParseMediaType env = Inr ''video/mp4''"
    "CreateTemp env = Inr tmp" "Copy env = None" "Seek env = None" "ffmpeg_Run env = None"
    "Open env = None" "ffprobe_Run env = None" "Unmarshal env = Inr (st # sts)"
    "PutObject env = None" "UpdateVideo env = None"
    "part_size env \<le> 32 * 2 ^ 20" "set (s3Bucket cfg) \<subseteq> set bucket_chars"
    and "key = aspect_label (Width st) (Height st) @ ''/'' @
           EncodeToString (rand_Read env (replicate 32 0)) @ ''.'' @ getExtension ''video/mp4''"
    and "video1 = video\<lparr>VideoURL := Some (s3Bucket cfg @ '','' @ key)\<rparr>"
  shows "fst (handlerUploadVideo cfg env s) =
       (case fst (dbVideoToSignedVideo env video1 s) of
          Panic p \<Rightarrow> Panicked p
        | Err err \<Rightarrow> RespondWithError 500 ''Couldn't sign video''
        | Ok signedVideo \<Rightarrow> RespondWithJSON 200 signedVideo)"
    and "db (snd (handlerUploadVideo cfg env s)) = (db s)(ID video \<mapsto> video1)"
    and "objects (snd (handlerUploadVideo cfg env s)) =
       (s3Bucket cfg, key, ''video/mp4'', tmp @ ''.processing'') # objects s"
    and "disk (snd (handlerUploadVideo cfg env s)) =
       removeAll tmp (removeAll (tmp @ ''.processing'') ((tmp @ ''.processing'') # tmp # disk s))"
  using assms
  unfolding handlerUploadVideo_def stage_def publish_def Let_def GetVideo_def FormFile_limited_def
    processVideoForFastStart_def getVideoAspectRatio_def s3_PutObject_def
  by (simp_all add: case_prod_beta dbVideoToSignedVideo_fst split: result.splits)

lemma publish_objects:
  assumes "publish cfg env video mt tmp fast s = (out, s')"
  shows "disk s' = disk s \<and> (objects s' = objects s \<or> (\<exists>st sts.
     Unmarshal env = Inr (st # sts) \<and>
     objects s' = (s3Bucket cfg, aspect_label (Width st) (Height st) @ ''/'' @
           EncodeToString (rand_Read env (replicate 32 0)) @ ''.'' @ getExtension mt, mt, fast)
         # objects s))"
  using assms unfolding publish_def Let_def
  by (auto split: prod.splits result.splits option.splits sum.splits list.splits
      simp: getVideoAspectRatio_def Let_def s3_PutObject_None dest!: dbVideoToSignedVideo_state)

lemma stage_objects:
  assumes "stage cfg env video mt tmp s = (out, s')"
  shows "objects s' = objects s \<or> (\<exists>st sts.
     Unmarshal env = Inr (st # sts) \<and>
     objects s' = (s3Bucket cfg, aspect_label (Width st) (Height st) @ ''/'' @
           EncodeToString (rand_Read env (replicate 32 0)) @ ''.'' @ getExtension mt, mt,
           tmp @ ''.processing'') # objects s)"
  using assms unfolding stage_def Let_def
  by (auto split: prod.splits sum.splits option.splits
      dest!: processVideoForFastStart_state publish_objects)

lemma handler_objects:
  assumes "handlerUploadVideo cfg env s = (out, s')"
  shows "objects s' = objects s \<or> (\<exists>st sts tmp.
     Unmarshal env = Inr (st # sts) \<and>
     objects s' = (s3Bucket cfg, aspect_label (Width st) (Height st) @ ''/'' @
           EncodeToString (rand_Read env (replicate 32 0)) @ ''.'' @ getExtension ''video/mp4'',
           ''video/mp4'', tmp @ ''.processing'') # objects s)"
  using assms unfolding handlerUploadVideo_def Let_def
  by (auto split: prod.splits sum.splits option.splits if_splits
      dest!: FormFile_limited_state stage_objects)

lemma publish_error_db:
  assumes "publish cfg env video mt tmp fast s = (RespondWithError code msg, s')"
    and "msg \<noteq> ''Couldn't sign video''"
  shows "db s' = db s"
  using assms unfolding publish_def Let_def
  by (auto split: prod.splits result.splits option.splits
      dest!: getVideoAspectRatio_state dbVideoToSignedVideo_state)

lemma stage_error_db:
  assumes "stage cfg env video mt tmp s = (RespondWithError code msg, s')"
    and "msg \<noteq> ''Couldn't sign video''"
  shows "db s' = db s"
  using assms unfolding stage_def Let_def
  by (auto split: prod.splits sum.splits option.splits
      dest!: processVideoForFastStart_state publish_error_db)

lemma handler_error_db:
  assumes "handlerUploadVideo cfg env s = (RespondWithError code msg, s')"
    and "msg \<noteq> ''Couldn't sign video''"
  shows "db s' = db s"
  using assms unfolding handlerUploadVideo_def Let_def
  by (auto split: prod.splits sum.splits option.splits if_splits
      dest!: FormFile_limited_state stage_error_db)

lemma publish_sign_error:
  assumes "publish cfg env video mt tmp fast s = (RespondWithError code ''Couldn't sign video'', s')"
  shows "\<exists>st sts. Unmarshal env = Inr (st # sts) \<and> PutObject env = None \<and>
     UpdateVideo env = None \<and>
     db s' = (db s)(ID video \<mapsto> video\<lparr>VideoURL := Some (s3Bucket cfg @ '','' @
        aspect_label (Width st) (Height st) @ ''/'' @
        EncodeToString (rand_Read env (replicate 32 0)) @ ''.'' @ getExtension mt)\<rparr>)"
  using assms unfolding publish_def Let_def
  by (auto split: prod.splits result.splits option.splits sum.splits list.splits
      simp: getVideoAspectRatio_def Let_def s3_PutObject_None dest!: dbVideoToSignedVideo_state)

lemma stage_sign_error:
  assumes "stage cfg env video mt tmp s = (RespondWithError code ''Couldn't sign video'', s')"
  shows "\<exists>st sts. Unmarshal env = Inr (st # sts) \<and> PutObject env = None \<and>
     UpdateVideo env = None \<and>
     db s' = (db s)(ID video \<mapsto> video\<lparr>VideoURL := Some (s3Bucket cfg @ '','' @
        aspect_label (Width st) (Height st) @ ''/'' @
        EncodeToString (rand_Read env (replicate 32 0)) @ ''.'' @ getExtension mt)\<rparr>)"
  using assms unfolding stage_def Let_def
  by (auto split: prod.splits sum.splits option.splits
      dest!: processVideoForFastStart_state publish_sign_error)

lemma handler_sign_error:
  assumes "handlerUploadVideo cfg env s = (RespondWithError code ''Couldn't sign video'', s')"
  shows "\<exists>videoID video st sts. uuid_Parse env = Inr videoID \<and> db s videoID = Some video \<and>
     Unmarshal env = Inr (st # sts) \<and> PutObject env = None \<and> UpdateVideo env = None \<and>
     db s' = (db s)(ID video \<mapsto> video\<lparr>VideoURL := Some (s3Bucket cfg @ '','' @
        aspect_label (Width st) (Height st) @ ''/'' @
        EncodeToString (rand_Read env (replicate 32 0)) @ ''.'' @ getExtension ''video/mp4'')\<rparr>)"
  using assms unfolding handlerUploadVideo_def Let_def GetVideo_def
  by (auto split: prod.splits sum.splits option.splits if_splits
      dest!: FormFile_limited_state stage_sign_error)

subsection \<open>The sample request\<close>

lemmas handler_defs = handlerUploadVideo_def stage_def publish_def GetVideo_def
  FormFile_limited_def called_def Remove_def processVideoForFastStart_def
  getVideoAspectRatio_def s3_PutObject_def bucket_chars_def Let_def

lemmas sample_defs = sample_env_def sample_cfg_def sample_state_def sample_video_def

lemma upt_32: "[0..<32] = [0,1,2,3,4,5,6,7,8,9,10,11,12,13,14,15,16,17,18,19,20,21,22,23,24,25,26,27,28,29,30,31::nat]"
  by (simp add: upt_rec)

lemma sample_randomBytes:
  "rand_Read sample_env (replicate 32 0) = [0,1,2,3,4,5,6,7,8,9,10,11,12,13,14,15,16,17,18,19,20,21,22,23,24,25,26,27,28,29,30,31]"
  by (simp add: rand_Read_def sample_env_def upt_32)

lemma sample_randomString:
  "EncodeToString (rand_Read sample_env (replicate 32 0)) =
     ''AAECAwQFBgcICQoLDA0ODxAREhMUFRYXGBkaGxwdHh8''"
  unfolding sample_randomBytes by (simp add: encodeURL_def)

lemma sample_run:
  fixes f
  defines "env \<equiv> sample_env\<lparr>PresignGetObject := f\<rparr>"
  defines "key \<equiv> ''landscape/AAECAwQFBgcICQoLDA0ODxAREhMUFRYXGBkaGxwdHh8.bin''"
  defines "video1 \<equiv> sample_video\<lparr>VideoURL := Some (s3Bucket sample_cfg @ '','' @ key)\<rparr>"
  shows "fst (handlerUploadVideo sample_cfg env sample_state) =
       (case fst (dbVideoToSignedVideo env video1 sample_state) of
          Panic p \<Rightarrow> Panicked p
        | Err err \<Rightarrow> RespondWithError 500 ''Couldn't sign video''
        | Ok signedVideo \<Rightarrow> RespondWithJSON 200 signedVideo)"
    and "db (snd (handlerUploadVideo sample_cfg env sample_state)) = [''v1'' \<mapsto> video1]"
    and "objects (snd (handlerUploadVideo sample_cfg env sample_state)) =
       [(s3Bucket sample_cfg, key, ''video/mp4'', ''/tmp/tubely-upload.mp4123.processing'')]"
    and "disk (snd (handlerUploadVideo sample_cfg env sample_state)) = []"
proof -
  have r: "rand_Read env (replicate 32 0) = rand_Read sample_env (replicate 32 0)"
    by (simp add: env_def rand_Read_def)
  have k: "key = aspect_label (Width \<lparr>Width = 1920, Height = 1080\<rparr>) (Height \<lparr>Width = 1920, Height = 1080\<rparr>)
       @ ''/'' @ EncodeToString (rand_Read env (replicate 32 0)) @ ''.'' @ getExtension ''video/mp4''"
    unfolding r sample_randomString by (simp add: key_def aspect_label_1920_1080 getExtension_def)
  note run = handler_run[where env = env and videoID = "''v1''" and token = "''token''"
      and video = sample_video and s = sample_state and tmp = "''/tmp/tubely-upload.mp4123''"
      and st = "\<lparr>Width = 1920, Height = 1080\<rparr>" and sts = "[]" and cfg = sample_cfg
      and key = key and ?video1.0 = video1,
      OF _ _ _ _ _ _ _ _ _ _ _ _ _ _ _ _ _ _ k]
  have h: "uuid_Parse env = Inr ''v1''" "GetBearerToken env = Inr ''token''"
    "ValidateJWT env = Inr (UserID sample_video)" "db sample_state ''v1'' = Some sample_video"
    "body_read env \<le> 2 ^ 30" "FormFile env = None" "ParseMediaType env = Inr ''video/mp4''"
    "CreateTemp env = Inr ''/tmp/tubely-upload.mp4123''" "Copy env = None" "Seek env = None"
    "ffmpeg_Run env = None" "Open env = None" "ffprobe_Run env = None"
    "Unmarshal env = Inr [\<lparr>Width = 1920, Height = 1080\<rparr>]" "PutObject env = None"
    "UpdateVideo env = None" "part_size env \<le> 32 * 2 ^ 20"
    "set (s3Bucket sample_cfg) \<subseteq> set bucket_chars"
    by (simp_all add: env_def sample_env_def sample_state_def sample_video_def sample_cfg_def
        bucket_chars_def)
  have v: "video1 = sample_video\<lparr>VideoURL := Some (s3Bucket sample_cfg @ '','' @ key)\<rparr>"
    by (simp add: video1_def)
  show "fst (handlerUploadVideo sample_cfg env sample_state) =
       (case fst (dbVideoToSignedVideo env video1 sample_state) of
          Panic p \<Rightarrow> Panicked p
        | Err err \<Rightarrow> RespondWithError 500 ''Couldn't sign video''
        | Ok signedVideo \<Rightarrow> RespondWithJSON 200 signedVideo)"
    by (rule run(1)[OF h v])
  show "db (snd (handlerUploadVideo sample_cfg env sample_state)) = [''v1'' \<mapsto> video1]"
    using run(2)[OF h v] by (simp add: sample_state_def sample_video_def)
  show "objects (snd (handlerUploadVideo sample_cfg env sample_state)) =
       [(s3Bucket sample_cfg, key, ''video/mp4'', ''/tmp/tubely-upload.mp4123.processing'')]"
    using run(3)[OF h v] by (simp add: sample_state_def)
  show "disk (snd (handlerUploadVideo sample_cfg env sample_state)) = []"
    using run(4)[OF h v] by (simp add: sample_state_def)
qed

lemma sample_response:
  "fst (handlerUploadVideo sample_cfg sample_env sample_state) =
     RespondWithJSON 200 (sample_video\<lparr>VideoURL := Some
       ''https://s3/tubely/landscape/AAECAwQFBgcICQoLDA0ODxAREhMUFRYXGBkaGxwdHh8.bin''\<rparr>)"
proof -
  have "fst (dbVideoToSignedVideo sample_env
      (sample_video\<lparr>VideoURL := Some (s3Bucket sample_cfg @ '','' @
         ''landscape/AAECAwQFBgcICQoLDA0ODxAREhMUFRYXGBkaGxwdHh8.bin'')\<rparr>) sample_state) =
    Ok (sample_video\<lparr>VideoURL := Some
       ''https://s3/tubely/landscape/AAECAwQFBgcICQoLDA0ODxAREhMUFRYXGBkaGxwdHh8.bin''\<rparr>)"
    by (subst dbVideoToSignedVideo_joined) (simp_all add: sample_cfg_def sample_env_def)
  then show ?thesis
    using sample_run(1)[where f = "PresignGetObject sample_env"] by simp
qed

lemma sample_result:
  "handlerUploadVideo sample_cfg sample_env sample_state =
     (RespondWithJSON 200 (sample_video\<lparr>VideoURL := Some
       ''https://s3/tubely/landscape/AAECAwQFBgcICQoLDA0ODxAREhMUFRYXGBkaGxwdHh8.bin''\<rparr>),
      snd (handlerUploadVideo sample_cfg sample_env sample_state))"
  using sample_response by (simp add: prod_eq_iff)

lemma sample_sign_failure:
  fixes f :: "string \<Rightarrow> string \<Rightarrow> nat \<Rightarrow> error + string"
  assumes "f = (\<lambda>bucket key expireTime. Inl ''no credentials'')"
  shows "fst (handlerUploadVideo sample_cfg (sample_env\<lparr>PresignGetObject := f\<rparr>) sample_state)
      = RespondWithError StatusInternalServerError ''Couldn't sign video''"
    and "db (snd (handlerUploadVideo sample_cfg (sample_env\<lparr>PresignGetObject := f\<rparr>)
      sample_state)) ''v1'' = Some (sample_video\<lparr>VideoURL := Some
       ''tubely,landscape/AAECAwQFBgcICQoLDA0ODxAREhMUFRYXGBkaGxwdHh8.bin''\<rparr>)"
proof -
  have "fst (dbVideoToSignedVideo (sample_env\<lparr>PresignGetObject := f\<rparr>)
      (sample_video\<lparr>VideoURL := Some (s3Bucket sample_cfg @ '','' @
         ''landscape/AAECAwQFBgcICQoLDA0ODxAREhMUFRYXGBkaGxwdHh8.bin'')\<rparr>) sample_state) =
    Err ''no credentials''"
    by (subst dbVideoToSignedVideo_joined) (simp_all add: sample_cfg_def assms)
  then show "fst (handlerUploadVideo sample_cfg (sample_env\<lparr>PresignGetObject := f\<rparr>) sample_state)
      = RespondWithError StatusInternalServerError ''Couldn't sign video''"
    using sample_run(1)[where f = f] by simp
  show "db (snd (handlerUploadVideo sample_cfg (sample_env\<lparr>PresignGetObject := f\<rparr>)
      sample_state)) ''v1'' = Some (sample_video\<lparr>VideoURL := Some
       ''tubely,landscape/AAECAwQFBgcICQoLDA0ODxAREhMUFRYXGBkaGxwdHh8.bin''\<rparr>)"
    using sample_run(2)[where f = f] by (simp add: sample_cfg_def)
qed

section \<open>Claims\<close>

subsection \<open>C1: the record on a failure response\<close>

text \<open>
  C1, as the code has it. Every failure response but one leaves the video table as it was.
  The exception is the response \<^verbatim>\<open>Couldn't sign video\<close>: the presigned URL is requested
  after the record has been persisted, so when signing fails the answer is a failure and
  the record already holds the new location \<^verbatim>\<open>bucket,key\<close>.
\<close>

theorem failure_leaves_record:
  assumes "handlerUploadVideo cfg env s = (RespondWithError code msg, s')"
  shows "(msg \<noteq> ''Couldn't sign video'' \<longrightarrow> db s' = db s) \<and>
     (msg = ''Couldn't sign video'' \<longrightarrow>
        (\<exists>videoID video st sts. uuid_Parse env = Inr videoID \<and> db s videoID = Some video \<and>
           Unmarshal env = Inr (st # sts) \<and> PutObject env = None \<and> UpdateVideo env = None \<and>
           db s' = (db s)(ID video \<mapsto> video\<lparr>VideoURL := Some (s3Bucket cfg @ '','' @
              aspect_label (Width st) (Height st) @ ''/'' @
              EncodeToString (rand_Read env (replicate 32 0)) @ ''.'' @
              getExtension ''video/mp4'')\<rparr>)))"
proof (intro conjI impI)
  assume "msg \<noteq> ''Couldn't sign video''"
  with assms show "db s' = db s" by (rule handler_error_db)
next
  assume "msg = ''Couldn't sign video''"
  with assms have "handlerUploadVideo cfg env s = (RespondWithError code ''Couldn't sign video'', s')"
    by simp
  then show "\<exists>videoID video st sts. uuid_Parse env = Inr videoID \<and> db s videoID = Some video \<and>
      Unmarshal env = Inr (st # sts) \<and> PutObject env = None \<and> UpdateVideo env = None \<and>
      db s' = (db s)(ID video \<mapsto> video\<lparr>VideoURL := Some (s3Bucket cfg @ '','' @
         aspect_label (Width st) (Height st) @ ''/'' @
         EncodeToString (rand_Read env (replicate 32 0)) @ ''.'' @
         getExtension ''video/mp4'')\<rparr>)"
    by (rule handler_sign_error)
qed

text \<open>
  C1 at two failing requests: one whose upload to the object store fails, which leaves the
  table as it was, and one whose signing fails.
\<close>

theorem failure_leaves_record_witness:
  "fst (handlerUploadVideo sample_cfg (sample_env\<lparr>PutObject := Some ''timeout''\<rparr>) sample_state) =
     RespondWithError StatusInternalServerError ''Couldn't upload file'' \<and>
   db (snd (handlerUploadVideo sample_cfg (sample_env\<lparr>PutObject := Some ''timeout''\<rparr>)
     sample_state)) = db sample_state \<and>
   fst (handlerUploadVideo sample_cfg
      (sample_env\<lparr>PresignGetObject := (\<lambda>bucket key expireTime. Inl ''no credentials'')\<rparr>)
      sample_state) = RespondWithError StatusInternalServerError ''Couldn't sign video'' \<and>
   (\<exists>videoID video (st :: stream).
      uuid_Parse (sample_env\<lparr>PresignGetObject := (\<lambda>bucket key expireTime. Inl ''no credentials'')\<rparr>)
        = Inr videoID \<and>
      db sample_state videoID = Some video \<and>
      db (snd (handlerUploadVideo sample_cfg
        (sample_env\<lparr>PresignGetObject := (\<lambda>bucket key expireTime. Inl ''no credentials'')\<rparr>)
        sample_state)) =
       (db sample_state)(ID video \<mapsto> video\<lparr>VideoURL := Some (s3Bucket sample_cfg @ '','' @
          aspect_label (Width st) (Height st) @ ''/'' @
          EncodeToString (rand_Read
            (sample_env\<lparr>PresignGetObject := (\<lambda>bucket key expireTime. Inl ''no credentials'')\<rparr>)
            (replicate 32 0)) @ ''.'' @ getExtension ''video/mp4'')\<rparr>))"
proof -
  let ?E = "sample_env\<lparr>PutObject := Some ''timeout''\<rparr>"
  let ?F = "sample_env\<lparr>PresignGetObject := (\<lambda>bucket key expireTime. Inl ''no credentials'')\<rparr>"
  have r: "fst (handlerUploadVideo sample_cfg ?E sample_state) =
      RespondWithError StatusInternalServerError ''Couldn't upload file''"
    by (simp add: handler_defs sample_defs)
  then have "handlerUploadVideo sample_cfg ?E sample_state =
      (RespondWithError StatusInternalServerError ''Couldn't upload file'',
       snd (handlerUploadVideo sample_cfg ?E sample_state))"
    by (simp add: prod_eq_iff)
  from failure_leaves_record[OF this]
  have a: "db (snd (handlerUploadVideo sample_cfg ?E sample_state)) = db sample_state" by simp
  have q: "fst (handlerUploadVideo sample_cfg ?F sample_state) =
      RespondWithError StatusInternalServerError ''Couldn't sign video''"
    by (rule sample_sign_failure(1)) simp
  then have "handlerUploadVideo sample_cfg ?F sample_state =
      (RespondWithError StatusInternalServerError ''Couldn't sign video'',
       snd (handlerUploadVideo sample_cfg ?F sample_state))"
    by (simp add: prod_eq_iff)
  from failure_leaves_record[OF this]
  have b: "\<exists>videoID video (st :: stream). uuid_Parse ?F = Inr videoID \<and>
      db sample_state videoID = Some video \<and>
      db (snd (handlerUploadVideo sample_cfg ?F sample_state)) =
       (db sample_state)(ID video \<mapsto> video\<lparr>VideoURL := Some (s3Bucket sample_cfg @ '','' @
          aspect_label (Width st) (Height st) @ ''/'' @
          EncodeToString (rand_Read ?F (replicate 32 0)) @ ''.'' @
          getExtension ''video/mp4'')\<rparr>)"
    by auto
  from r a q b show ?thesis by simp
qed

text \<open>
  C1 as stated fails: when the presigned URL cannot be produced the handler answers 500
  and the record of the video has been changed.
\<close>

theorem sign_failure_changes_record:
  "fst (handlerUploadVideo sample_cfg
      (sample_env\<lparr>PresignGetObject := (\<lambda>bucket key expireTime. Inl ''no credentials'')\<rparr>)
      sample_state) = RespondWithError StatusInternalServerError ''Couldn't sign video'' \<and>
   db sample_state ''v1'' = Some sample_video \<and>
   db (snd (handlerUploadVideo sample_cfg
      (sample_env\<lparr>PresignGetObject := (\<lambda>bucket key expireTime. Inl ''no credentials'')\<rparr>)
      sample_state)) ''v1'' =
     Some (sample_video\<lparr>VideoURL := Some
       ''tubely,landscape/AAECAwQFBgcICQoLDA0ODxAREhMUFRYXGBkaGxwdHh8.bin''\<rparr>) \<and>
   sample_video\<lparr>VideoURL := Some
       ''tubely,landscape/AAECAwQFBgcICQoLDA0ODxAREhMUFRYXGBkaGxwdHh8.bin''\<rparr> \<noteq> sample_video"
proof -
  have "db sample_state ''v1'' = Some sample_video" by (simp add: sample_state_def)
  moreover have "sample_video\<lparr>VideoURL := Some
       ''tubely,landscape/AAECAwQFBgcICQoLDA0ODxAREhMUFRYXGBkaGxwdHh8.bin''\<rparr> \<noteq> sample_video"
    by (simp add: sample_video_def)
  ultimately show ?thesis
    using sample_sign_failure[of "\<lambda>bucket key expireTime. Inl ''no credentials''"] by simp
qed

subsection \<open>C2: the classification of the aspect ratio\<close>

text \<open>
  C2, as the code has it. The comparison is made in float64, so the label follows the
  exact ratio up to rounding. For a width \<open>w\<close> and a height \<open>h\<close> in the range of Go's
  \<^verbatim>\<open>int\<close>: when \<open>h\<close> is not zero and \<open>|w/h - 16/9| \<le> 0.001 - 10^-12\<close> the label is
  \<^verbatim>\<open>landscape\<close>, and the label \<^verbatim>\<open>landscape\<close> is given only when \<open>h\<close> is not zero and
  \<open>|w/h - 16/9| \<le> 0.001 + 10^-12\<close>; the same holds of \<^verbatim>\<open>portrait\<close> and \<open>9/16\<close>; every
  other input, a zero height among them, is labelled \<^verbatim>\<open>other\<close>. In particular
  1920 by 1080 is \<^verbatim>\<open>landscape\<close>, 1080 by 1920 is \<^verbatim>\<open>portrait\<close> and 1000 by 1000 is
  \<^verbatim>\<open>other\<close>.
\<close>

theorem aspect_label_tolerance:
  fixes w h :: int
  assumes "- (2 ^ 63) \<le> w" "w < 2 ^ 63" "- (2 ^ 63) \<le> h" "h < 2 ^ 63"
  shows "(h \<noteq> 0 \<and> \<bar>of_int w / of_int h - 16 / 9 :: rat\<bar> \<le> 1 / 1000 - 1 / 10 ^ 12
            \<longrightarrow> aspect_label w h = ''landscape'') \<and>
     (aspect_label w h = ''landscape''
            \<longrightarrow> h \<noteq> 0 \<and> \<bar>of_int w / of_int h - 16 / 9 :: rat\<bar> \<le> 1 / 1000 + 1 / 10 ^ 12) \<and>
     (h \<noteq> 0 \<and> \<bar>of_int w / of_int h - 9 / 16 :: rat\<bar> \<le> 1 / 1000 - 1 / 10 ^ 12
            \<longrightarrow> aspect_label w h = ''portrait'') \<and>
     (aspect_label w h = ''portrait''
            \<longrightarrow> h \<noteq> 0 \<and> \<bar>of_int w / of_int h - 9 / 16 :: rat\<bar> \<le> 1 / 1000 + 1 / 10 ^ 12) \<and>
     (aspect_label w h \<noteq> ''landscape'' \<and> aspect_label w h \<noteq> ''portrait''
            \<longrightarrow> aspect_label w h = ''other'') \<and>
     (h = 0 \<longrightarrow> aspect_label w h = ''other'') \<and>
     aspect_label 1920 1080 = ''landscape'' \<and>
     aspect_label 1080 1920 = ''portrait'' \<and>
     aspect_label 1000 1000 = ''other''"
proof -
  have "w \<le> 2 ^ 63" "- w \<le> 2 ^ 63" using assms(1,2) by linarith+
  then have w: "\<bar>w\<bar> \<le> 2 ^ 63" by (rule abs_leI)
  have "h \<le> 2 ^ 63" "- h \<le> 2 ^ 63" using assms(3,4) by linarith+
  then have h: "\<bar>h\<bar> \<le> 2 ^ 63" by (rule abs_leI)
  have a: "h \<noteq> 0 \<and> \<bar>of_int w / of_int h - 16 / 9 :: rat\<bar> \<le> 1 / 1000 - 1 / 10 ^ 12
      \<longrightarrow> aspect_label w h = ''landscape''"
    using aspect_label_bounds(1)[OF w h] by (intro impI) (elim conjE)
  have b: "aspect_label w h = ''landscape''
      \<longrightarrow> h \<noteq> 0 \<and> \<bar>of_int w / of_int h - 16 / 9 :: rat\<bar> \<le> 1 / 1000 + 1 / 10 ^ 12"
    using aspect_label_bounds(2)[OF w h] by (intro impI)
  have c: "h \<noteq> 0 \<and> \<bar>of_int w / of_int h - 9 / 16 :: rat\<bar> \<le> 1 / 1000 - 1 / 10 ^ 12
      \<longrightarrow> aspect_label w h = ''portrait''"
    using aspect_label_bounds(3)[OF w h] by (intro impI) (elim conjE)
  have d: "aspect_label w h = ''portrait''
      \<longrightarrow> h \<noteq> 0 \<and> \<bar>of_int w / of_int h - 9 / 16 :: rat\<bar> \<le> 1 / 1000 + 1 / 10 ^ 12"
    using aspect_label_bounds(4)[OF w h] by (intro impI)
  have e: "aspect_label w h \<noteq> ''landscape'' \<and> aspect_label w h \<noteq> ''portrait''
      \<longrightarrow> aspect_label w h = ''other''"
    using aspect_label_cases[of w h] by auto
  have f: "h = 0 \<longrightarrow> aspect_label w h = ''other''"
    using aspect_label_zero_height[OF w] by simp
  from a b c d e f aspect_label_1920_1080 aspect_label_1080_1920 aspect_label_1000_1000
  show ?thesis by (intro conjI)
qed

text \<open>
  C2 at three frames in the range of \<^verbatim>\<open>int\<close>: 1920 by 1080, whose ratio is \<open>16/9\<close>,
  1080 by 1920, whose ratio is \<open>9/16\<close>, and a frame of height zero.
\<close>

theorem aspect_label_tolerance_witness:
  "- (2 ^ 63) \<le> (1920::int) \<and> (1920::int) < 2 ^ 63 \<and> - (2 ^ 63) \<le> (1080::int) \<and>
   (1080::int) < 2 ^ 63 \<and> - (2 ^ 63) \<le> (7::int) \<and> (7::int) < 2 ^ 63 \<and>
   - (2 ^ 63) \<le> (0::int) \<and> (0::int) < 2 ^ 63 \<and>
   (1080::int) \<noteq> 0 \<and> \<bar>of_int 1920 / of_int 1080 - 16 / 9 :: rat\<bar> \<le> 1 / 1000 - 1 / 10 ^ 12 \<and>
   aspect_label 1920 1080 = ''landscape'' \<and>
   (1920::int) \<noteq> 0 \<and> \<bar>of_int 1080 / of_int 1920 - 9 / 16 :: rat\<bar> \<le> 1 / 1000 - 1 / 10 ^ 12 \<and>
   aspect_label 1080 1920 = ''portrait'' \<and>
   aspect_label 7 0 = ''other''"
proof -
  have r: "- (2 ^ 63) \<le> (1920::int)" "(1920::int) < 2 ^ 63" "- (2 ^ 63) \<le> (1080::int)"
    "(1080::int) < 2 ^ 63" "- (2 ^ 63) \<le> (7::int)" "(7::int) < 2 ^ 63"
    "- (2 ^ 63) \<le> (0::int)" "(0::int) < 2 ^ 63"
    by simp_all
  have p: "(1080::int) \<noteq> 0 \<and> \<bar>of_int 1920 / of_int 1080 - 16 / 9 :: rat\<bar> \<le> 1 / 1000 - 1 / 10 ^ 12"
    and q: "(1920::int) \<noteq> 0 \<and> \<bar>of_int 1080 / of_int 1920 - 9 / 16 :: rat\<bar> \<le> 1 / 1000 - 1 / 10 ^ 12"
    by simp_all
  have a: "aspect_label 1920 1080 = ''landscape''"
    by (rule aspect_label_tolerance[OF r(1) r(2) r(3) r(4), THEN conjunct1, THEN mp, OF p])
  have b: "aspect_label 1080 1920 = ''portrait''"
    by (rule aspect_label_tolerance[OF r(3) r(4) r(1) r(2), THEN conjunct2, THEN conjunct2,
          THEN conjunct1, THEN mp, OF q])
  have c: "aspect_label 7 0 = ''other''"
    by (rule aspect_label_tolerance[OF r(5) r(6) r(7) r(8), THEN conjunct2, THEN conjunct2,
          THEN conjunct2, THEN conjunct2, THEN conjunct2, THEN conjunct1, THEN mp, OF refl])
  show ?thesis
    using r p q a b c by (simp only: simp_thms)
qed

text \<open>
  C2 as stated fails on the boundary: for 15991 by 9000 the exact ratio differs from
  \<open>16/9\<close> by exactly \<open>0.001\<close>, which is not less than \<open>0.001\<close>, and the code, computing
  in float64, answers \<^verbatim>\<open>landscape\<close>.
\<close>

theorem boundary_ratio_is_landscape:
  "aspect_label 15991 9000 = ''landscape'' \<and>
   \<not> \<bar>of_int 15991 / of_int 9000 - 16 / 9 :: rat\<bar> < 1 / 1000"
proof -
  have "aspect_label 15991 9000 = ''landscape''"
    unfolding aspect_label_def Let_def float64_const_def
    by (simp add: float64_of_int_exact float64_ratio_15991_9000 float64_round_16_9
        float64_round_1_1000 float64_diff_15991)
  then show ?thesis by simp
qed

subsection \<open>C3: a request by a user who does not own the video\<close>

text \<open>
  C3, as the code has it. A request whose identifier parses, whose token validates and
  whose video record exists, made by a user other than the record's owner, is answered
  with status 401 (\<^verbatim>\<open>http.StatusUnauthorized\<close>, the status of the authentication
  failures) and the message \<^verbatim>\<open>User not authorized to edit video\<close>. The check comes after
  the load of the record and before every other step: the state is returned as it was,
  so no call was made, no file or object written and no record changed.
\<close>

theorem non_owner_rejected:
  assumes "uuid_Parse env = Inr videoID" "GetBearerToken env = Inr token"
    "ValidateJWT env = Inr userID" "db s videoID = Some video" "UserID video \<noteq> userID"
  shows "handlerUploadVideo cfg env s =
     (RespondWithError StatusUnauthorized ''User not authorized to edit video'', s)"
  using assms by (simp add: handlerUploadVideo_def GetVideo_def)

text \<open>C3 at the sample request, sent by user \<^verbatim>\<open>u2\<close> for the video of \<^verbatim>\<open>u1\<close>.\<close>

theorem non_owner_rejected_witness:
  "uuid_Parse (sample_env\<lparr>ValidateJWT := Inr ''u2''\<rparr>) = Inr ''v1'' \<and>
   GetBearerToken (sample_env\<lparr>ValidateJWT := Inr ''u2''\<rparr>) = Inr ''token'' \<and>
   ValidateJWT (sample_env\<lparr>ValidateJWT := Inr ''u2''\<rparr>) = Inr ''u2'' \<and>
   db sample_state ''v1'' = Some sample_video \<and> UserID sample_video \<noteq> ''u2'' \<and>
   handlerUploadVideo sample_cfg (sample_env\<lparr>ValidateJWT := Inr ''u2''\<rparr>) sample_state =
     (RespondWithError StatusUnauthorized ''User not authorized to edit video'', sample_state)"
  using non_owner_rejected[of "sample_env\<lparr>ValidateJWT := Inr ''u2''\<rparr>" "''v1''" "''token''"
      "''u2''" sample_state sample_video sample_cfg]
  by (simp add: sample_defs)

text \<open>
  C3 as stated fails: the response to the non-owner carries status 401, not the status
  403 that \<^verbatim>\<open>Forbidden\<close> names.
\<close>

theorem non_owner_not_forbidden:
  "status_of (fst (handlerUploadVideo sample_cfg (sample_env\<lparr>ValidateJWT := Inr ''u2''\<rparr>)
      sample_state)) = Some StatusUnauthorized \<and>
   status_of (fst (handlerUploadVideo sample_cfg (sample_env\<lparr>ValidateJWT := Inr ''u2''\<rparr>)
      sample_state)) \<noteq> Some StatusForbidden"
  by (simp add: handlerUploadVideo_def GetVideo_def sample_defs status_of_def)

subsection \<open>C4: a body over the limit\<close>

text \<open>
  C4, as the code has it. When the request has passed identification, authentication,
  load and ownership, and the multipart parser has to read more than \<open>2^30\<close> bytes of the
  body, the handler answers with status 400 and the message
  \<^verbatim>\<open>Couldn't parse multipart form\<close>, the answer to any form that does not parse, and
  attempts no later step: the state is returned as it was.
\<close>

theorem oversized_body_rejected:
  assumes "uuid_Parse env = Inr videoID" "GetBearerToken env = Inr token"
    "ValidateJWT env = Inr (UserID video)" "db s videoID = Some video"
    "2 ^ 30 < body_read env"
  shows "handlerUploadVideo cfg env s =
     (RespondWithError StatusBadRequest ''Couldn't parse multipart form'', s)"
  using assms by (simp add: handlerUploadVideo_def GetVideo_def FormFile_limited_def)

text \<open>C4 at the sample request with a body of one byte over the limit.\<close>

theorem oversized_body_rejected_witness:
  "uuid_Parse (sample_env\<lparr>body_read := 2 ^ 30 + 1\<rparr>) = Inr ''v1'' \<and>
   GetBearerToken (sample_env\<lparr>body_read := 2 ^ 30 + 1\<rparr>) = Inr ''token'' \<and>
   ValidateJWT (sample_env\<lparr>body_read := 2 ^ 30 + 1\<rparr>) = Inr (UserID sample_video) \<and>
   db sample_state ''v1'' = Some sample_video \<and>
   2 ^ 30 < body_read (sample_env\<lparr>body_read := 2 ^ 30 + 1\<rparr>) \<and>
   handlerUploadVideo sample_cfg (sample_env\<lparr>body_read := 2 ^ 30 + 1\<rparr>) sample_state =
     (RespondWithError StatusBadRequest ''Couldn't parse multipart form'', sample_state)"
  using oversized_body_rejected[of "sample_env\<lparr>body_read := 2 ^ 30 + 1\<rparr>" "''v1''" "''token''"
      sample_video sample_state sample_cfg]
  by (simp add: sample_defs)

text \<open>
  C4 as stated fails: the response to the oversized body carries status 400, not the
  status 413 of \<^verbatim>\<open>PayloadTooLarge\<close>.
\<close>

theorem oversized_body_not_413:
  "status_of (fst (handlerUploadVideo sample_cfg (sample_env\<lparr>body_read := 2 ^ 30 + 1\<rparr>)
      sample_state)) = Some StatusBadRequest \<and>
   status_of (fst (handlerUploadVideo sample_cfg (sample_env\<lparr>body_read := 2 ^ 30 + 1\<rparr>)
      sample_state)) \<noteq> Some StatusRequestEntityTooLarge"
  by (simp add: handlerUploadVideo_def GetVideo_def FormFile_limited_def sample_defs status_of_def)

subsection \<open>C5: a declared media type other than video/mp4\<close>

text \<open>
  C5, as the code has it. When the request has passed identification, authentication,
  load, ownership and the parse of the form, and the media type declared by the file part
  is not \<^verbatim>\<open>video/mp4\<close>, the handler answers with status 400: with the message
  \<^verbatim>\<open>Unsupported file type\<close> when the declared type parses, with
  \<^verbatim>\<open>Couldn't parse media type\<close> when it does not. The decision reads the declared type
  only. The handler has then created no temporary file of its own, written nothing to the
  object store and left the video table as it was. The state differs from the one the
  request found in one case only: a file part of more than 32 MiB has been moved by the
  parser of the form to a temporary file \<^verbatim>\<open>multipart-*\<close>, and that file is on disk when
  the handler returns.
\<close>

theorem other_media_type_rejected:
  assumes "uuid_Parse env = Inr videoID" "GetBearerToken env = Inr token"
    "ValidateJWT env = Inr (UserID video)" "db s videoID = Some video"
    "body_read env \<le> 2 ^ 30" "FormFile env = None"
    "ParseMediaType env \<noteq> Inr ''video/mp4''"
  shows "handlerUploadVideo cfg env s =
     (RespondWithError StatusBadRequest
        (case ParseMediaType env of
           Inl err \<Rightarrow> ''Couldn't parse media type''
         | Inr mediaType \<Rightarrow> ''Unsupported file type''),
      if 32 * 2 ^ 20 < part_size env
      then s\<lparr>disk := multipart_temp env # disk s,
             trace := trace s @ [FormFile_spool (multipart_temp env)]\<rparr>
      else s)"
  using assms
  by (simp add: handlerUploadVideo_def GetVideo_def FormFile_limited_def called_def
      split: sum.splits)

text \<open>
  C5 at the sample request with a file part declared as \<^verbatim>\<open>image/png\<close>: the part has 3000
  bytes and the state is returned as it was.
\<close>

theorem other_media_type_rejected_witness:
  "uuid_Parse (sample_env\<lparr>ParseMediaType := Inr ''image/png''\<rparr>) = Inr ''v1'' \<and>
   GetBearerToken (sample_env\<lparr>ParseMediaType := Inr ''image/png''\<rparr>) = Inr ''token'' \<and>
   ValidateJWT (sample_env\<lparr>ParseMediaType := Inr ''image/png''\<rparr>) = Inr (UserID sample_video) \<and>
   db sample_state ''v1'' = Some sample_video \<and>
   body_read (sample_env\<lparr>ParseMediaType := Inr ''image/png''\<rparr>) \<le> 2 ^ 30 \<and>
   FormFile (sample_env\<lparr>ParseMediaType := Inr ''image/png''\<rparr>) = None \<and>
   ParseMediaType (sample_env\<lparr>ParseMediaType := Inr ''image/png''\<rparr>) \<noteq> Inr ''video/mp4'' \<and>
   handlerUploadVideo sample_cfg (sample_env\<lparr>ParseMediaType := Inr ''image/png''\<rparr>) sample_state =
     (RespondWithError StatusBadRequest ''Unsupported file type'', sample_state)"
  using other_media_type_rejected[of "sample_env\<lparr>ParseMediaType := Inr ''image/png''\<rparr>" "''v1''"
      "''token''" sample_video sample_state sample_cfg]
  by (simp add: sample_defs)

text \<open>
  C5 as stated fails twice at the sample request with a file part of 64 MiB declared as
  \<^verbatim>\<open>image/png\<close>: the response carries status 400, not the status 415 of
  \<^verbatim>\<open>UnsupportedMediaType\<close>; and a temporary file has been created before the rejection,
  the one the parser of the form wrote the part to. The handler's own temporary file does
  not exist and nothing has been written to the object store.
\<close>

theorem other_media_type_not_415:
  "status_of (fst (handlerUploadVideo sample_cfg
      (sample_env\<lparr>ParseMediaType := Inr ''image/png'', part_size := 64 * 2 ^ 20\<rparr>)
      sample_state)) = Some StatusBadRequest \<and>
   status_of (fst (handlerUploadVideo sample_cfg
      (sample_env\<lparr>ParseMediaType := Inr ''image/png'', part_size := 64 * 2 ^ 20\<rparr>)
      sample_state)) \<noteq> Some StatusUnsupportedMediaType \<and>
   disk sample_state = [] \<and>
   disk (snd (handlerUploadVideo sample_cfg
      (sample_env\<lparr>ParseMediaType := Inr ''image/png'', part_size := 64 * 2 ^ 20\<rparr>)
      sample_state)) = [''/tmp/multipart-456''] \<and>
   trace (snd (handlerUploadVideo sample_cfg
      (sample_env\<lparr>ParseMediaType := Inr ''image/png'', part_size := 64 * 2 ^ 20\<rparr>)
      sample_state)) = trace sample_state @ [FormFile_spool ''/tmp/multipart-456''] \<and>
   objects (snd (handlerUploadVideo sample_cfg
      (sample_env\<lparr>ParseMediaType := Inr ''image/png'', part_size := 64 * 2 ^ 20\<rparr>)
      sample_state)) = objects sample_state"
  by (simp add: handlerUploadVideo_def GetVideo_def FormFile_limited_def called_def sample_defs
      status_of_def)

subsection \<open>C6: the object key\<close>

text \<open>
  C6. On every successful upload the object is stored under the key
  \<^verbatim>\<open>{classification}/{randomID}.{extension}\<close>: the classification is the label computed
  from the width and height of the first probed stream and is one of \<^verbatim>\<open>landscape\<close>,
  \<^verbatim>\<open>portrait\<close>, \<^verbatim>\<open>other\<close>; the random identifier is the encoding of 32 bytes, the
  first 32 bytes that the system's random source delivers, into the URL-safe alphabet:
  43 characters with no padding character, and no other sequence of bytes has this
  encoding, so the identifier holds all of the 32 bytes; the extension is the one looked
  up for the media type.
\<close>

theorem object_key_format:
  assumes "handlerUploadVideo cfg env s = (RespondWithJSON code v, s')"
  shows "\<exists>st sts tmp label randomBytes randomID.
     Unmarshal env = Inr (st # sts) \<and>
     label = aspect_label (Width st) (Height st) \<and>
     label \<in> {''landscape'', ''portrait'', ''other''} \<and>
     randomBytes = map (entropy env) [0..<32] \<and> length randomBytes = 32 \<and>
     randomID = EncodeToString randomBytes \<and> length randomID = 43 \<and>
     set randomID \<subseteq> set encodeURL \<and> CHR ''='' \<notin> set randomID \<and>
     (\<forall>bs. EncodeToString bs = randomID \<longrightarrow> bs = randomBytes) \<and>
     objects s' =
       (s3Bucket cfg, label @ ''/'' @ randomID @ ''.'' @ getExtension ''video/mp4'',
        ''video/mp4'', tmp @ ''.processing'') # objects s"
proof -
  from handler_json[OF assms] obtain st sts tmp where
    u: "Unmarshal env = Inr (st # sts)" and
    o: "objects s' = (s3Bucket cfg, aspect_label (Width st) (Height st) @ ''/'' @
           EncodeToString (rand_Read env (replicate 32 0)) @ ''.'' @ getExtension ''video/mp4'',
           ''video/mp4'', tmp @ ''.processing'') # objects s"
    by auto
  define randomBytes where "randomBytes = map (entropy env) [0..<32]"
  have r: "rand_Read env (replicate 32 0) = randomBytes"
    by (simp add: randomBytes_def rand_Read_def)
  have l: "length randomBytes = 32" by (simp add: randomBytes_def)
  have l2: "length (EncodeToString randomBytes) = 43" by (simp add: length_EncodeToString l)
  have a: "set (EncodeToString randomBytes) \<subseteq> set encodeURL" by (rule set_EncodeToString)
  have p: "CHR ''='' \<notin> set (EncodeToString randomBytes)" using a pad_notin_encodeURL by blast
  have i: "\<forall>bs. EncodeToString bs = EncodeToString randomBytes \<longrightarrow> bs = randomBytes"
    using EncodeToString_inj by blast
  have c: "aspect_label (Width st) (Height st) \<in> {''landscape'', ''portrait'', ''other''}"
    using aspect_label_cases[of "Width st" "Height st"] by blast
  show ?thesis
    using u o[unfolded r] l l2 a p i c unfolding randomBytes_def by blast
qed

text \<open>
  C6 at the sample request, which succeeds; its random source delivers the bytes 0 to 31
  and the one probed stream is 1920 by 1080.
\<close>

theorem object_key_format_witness:
  "map (entropy sample_env) [0..<32] =
     [0,1,2,3,4,5,6,7,8,9,10,11,12,13,14,15,16,17,18,19,20,21,22,23,24,25,26,27,28,29,30,31] \<and>
   EncodeToString (map (entropy sample_env) [0..<32]) =
     ''AAECAwQFBgcICQoLDA0ODxAREhMUFRYXGBkaGxwdHh8'' \<and>
   aspect_label 1920 1080 = ''landscape'' \<and> getExtension ''video/mp4'' = ''bin'' \<and>
   objects (snd (handlerUploadVideo sample_cfg sample_env sample_state)) =
     [(''tubely'', ''landscape/AAECAwQFBgcICQoLDA0ODxAREhMUFRYXGBkaGxwdHh8.bin'',
       ''video/mp4'', ''/tmp/tubely-upload.mp4123.processing'')]"
proof -
  have b: "map (entropy sample_env) [0..<32] =
     [0,1,2,3,4,5,6,7,8,9,10,11,12,13,14,15,16,17,18,19,20,21,22,23,24,25,26,27,28,29,30,31]"
    using sample_randomBytes by (simp add: rand_Read_def)
  have e: "EncodeToString (map (entropy sample_env) [0..<32]) =
     ''AAECAwQFBgcICQoLDA0ODxAREhMUFRYXGBkaGxwdHh8''"
    using sample_randomString by (simp add: rand_Read_def)
  have x: "getExtension ''video/mp4'' = ''bin''" by (simp add: getExtension_def)
  from object_key_format[OF sample_result] obtain st :: stream and sts tmp where
    u: "Unmarshal sample_env = Inr (st # sts)" and
    o: "objects (snd (handlerUploadVideo sample_cfg sample_env sample_state)) =
       (s3Bucket sample_cfg, aspect_label (Width st) (Height st) @ ''/'' @
          EncodeToString (map (entropy sample_env) [0..<32]) @ ''.'' @ getExtension ''video/mp4'',
        ''video/mp4'', tmp @ ''.processing'') # objects sample_state"
    by auto
  from u have st: "st = \<lparr>Width = 1920, Height = 1080\<rparr>" by (simp add: sample_env_def)
  have t: "tmp @ ''.processing'' = ''/tmp/tubely-upload.mp4123.processing''"
    using o sample_run(3)[where f = "PresignGetObject sample_env"] by simp
  show ?thesis
    using o b e x t aspect_label_1920_1080
    by (simp add: st sample_cfg_def sample_state_def)
qed

subsection \<open>C7: the temporary files\<close>

text \<open>
  C7 fails on the code. The removal of the remuxed file is deferred at line 105, after the
  return of line 103: when ffmpeg has written the remuxed file and \<^verbatim>\<open>os.Open\<close> of it
  fails, the handler answers 500 and returns with the remuxed file still on disk. The
  staged upload is removed.
\<close>

theorem remuxed_file_left_when_open_fails:
  "disk sample_state = [] \<and>
   fst (handlerUploadVideo sample_cfg (sample_env\<lparr>Open := Some ''too many open files''\<rparr>)
      sample_state) =
     RespondWithError StatusInternalServerError ''Couldn't open fast start temp file'' \<and>
   disk (snd (handlerUploadVideo sample_cfg (sample_env\<lparr>Open := Some ''too many open files''\<rparr>)
      sample_state)) = [''/tmp/tubely-upload.mp4123.processing'']"
  by (simp add: handler_defs sample_defs)

subsection \<open>C8: a probe that reports no stream\<close>

text \<open>
  C8 fails on the code. When ffprobe succeeds and its output parses to an empty list of
  streams, \<^verbatim>\<open>getVideoAspectRatio\<close> indexes the first stream and panics; no error is
  returned and the handler sends no response. Output that does not parse is returned as
  an error.
\<close>

theorem probe_panics_on_no_stream:
  "ffprobe_Run (sample_env\<lparr>Unmarshal := Inr []\<rparr>) = None \<and>
   fst (getVideoAspectRatio (sample_env\<lparr>Unmarshal := Inr []\<rparr>) ''/tmp/tubely-upload.mp4123''
      sample_state) = Panic ''index out of range [0] with length 0'' \<and>
   fst (handlerUploadVideo sample_cfg (sample_env\<lparr>Unmarshal := Inr []\<rparr>) sample_state) =
     Panicked ''index out of range [0] with length 0'' \<and>
   fst (getVideoAspectRatio (sample_env\<lparr>Unmarshal := Inl ''unexpected end of JSON input''\<rparr>)
      ''/tmp/tubely-upload.mp4123'' sample_state) = Err ''unexpected end of JSON input''"
  by (simp add: handler_defs sample_defs)

subsection \<open>C9: the persisted reference and the returned URL\<close>



subsection \<open>C10: the extension of a video object\<close>

text \<open>
  C10. For the declared media type \<^verbatim>\<open>video/mp4\<close> the extension lookup returns the
  fallback \<^verbatim>\<open>bin\<close>, its table holding image types only; hence whatever the handler
  stores in the object store during a request has a key that ends in \<^verbatim>\<open>.bin\<close>.
\<close>

theorem video_extension_is_bin:
  assumes "handlerUploadVideo cfg env s = (out, s')"
  shows "getExtension ''video/mp4'' = ''bin'' \<and>
     (objects s' = objects s \<or>
      (\<exists>stem tmp. objects s' =
         (s3Bucket cfg, stem @ ''.bin'', ''video/mp4'', tmp @ ''.processing'') # objects s))"
proof -
  have e: "getExtension ''video/mp4'' = ''bin''" by (simp add: getExtension_def)
  from handler_objects[OF assms] show ?thesis
  proof
    assume "objects s' = objects s"
    with e show ?thesis by simp
  next
    assume "\<exists>st sts tmp. Unmarshal env = Inr (st # sts) \<and>
      objects s' = (s3Bucket cfg, aspect_label (Width st) (Height st) @ ''/'' @
           EncodeToString (rand_Read env (replicate 32 0)) @ ''.'' @ getExtension ''video/mp4'',
           ''video/mp4'', tmp @ ''.processing'') # objects s"
    then obtain st :: stream and tmp where o: "objects s' =
        (s3Bucket cfg, aspect_label (Width st) (Height st) @ ''/'' @
           EncodeToString (rand_Read env (replicate 32 0)) @ ''.'' @ getExtension ''video/mp4'',
           ''video/mp4'', tmp @ ''.processing'') # objects s"
      by auto
    have "objects s' = (s3Bucket cfg,
        (aspect_label (Width st) (Height st) @ ''/'' @
           EncodeToString (rand_Read env (replicate 32 0))) @ ''.bin'',
        ''video/mp4'', tmp @ ''.processing'') # objects s"
      unfolding o e by simp
    with e show ?thesis by blast
  qed
qed

text \<open>C10 at the sample request: the one object stored has a key ending in \<^verbatim>\<open>.bin\<close>.\<close>

theorem video_extension_is_bin_witness:
  "getExtension ''video/mp4'' = ''bin'' \<and>
     (objects (snd (handlerUploadVideo sample_cfg sample_env sample_state)) = objects sample_state \<or>
      (\<exists>stem tmp. objects (snd (handlerUploadVideo sample_cfg sample_env sample_state)) =
         (s3Bucket sample_cfg, stem @ ''.bin'', ''video/mp4'', tmp @ ''.processing'')
           # objects sample_state))"
  by (rule video_extension_is_bin[OF sample_result])

end
